theory Spec2Isabelle
  imports Complex_Main "HOL-Library.Multiset"
begin

section \<open>Python values, exceptions and string operations\<close>

text \<open>
  The quiz pipeline handles values decoded by \<^verbatim>\<open>json.loads\<close>: \<^verbatim>\<open>None\<close>, booleans,
  numbers, strings, lists and dicts. A dict is an association list in insertion order;
  Python dicts have distinct keys, which the theorems assume where it matters.
  A character is a code point below 256, so the string operations below are the
  restrictions of \<^verbatim>\<open>str.strip\<close>, \<^verbatim>\<open>str.lower\<close> and \<^verbatim>\<open>int\<close> to such strings.
\<close>

datatype json =
    JNull
  | JBool bool
  | JInt int
  | JFloat rat
  | JStr string
  | JArr "json list"
  | JObj "(string \<times> json) list"

text \<open>
  The exceptions the modelled code can raise. They are all subclasses of \<^verbatim>\<open>Exception\<close>.
  \<open>JSONDecodeError\<close> is \<^verbatim>\<open>json.JSONDecodeError\<close> (and its subclasses), whoever raises it;
  \<open>ServiceError\<close> stands for any other exception that the call to the generation
  service raises (transport, service or API error).
\<close>

datatype exn =
    AttributeError
  | TypeError
  | ValueError
  | IndexError
  | KeyError json
  | UnboundLocalError
  | JSONDecodeError
  | ServiceError string

definition isspace :: "char \<Rightarrow> bool" where
  "isspace c = ((of_char c :: nat) \<in> {9, 10, 11, 12, 13, 28, 29, 30, 31, 32, 133, 160})"

definition strip :: "string \<Rightarrow> string" where
  "strip s = rev (dropWhile isspace (rev (dropWhile isspace s)))"

text \<open>\<^verbatim>\<open>s.replace(old, new)\<close>: occurrences are replaced from the left, without overlap.\<close>

function replace :: "string \<Rightarrow> string \<Rightarrow> string \<Rightarrow> string" where
  "replace old new s =
     (if old = [] then new @ concat (map (\<lambda>c. c # new) s)
      else if s = [] then []
      else if take (length old) s = old then new @ replace old new (drop (length old) s)
      else hd s # replace old new (tl s))"
  by pat_completeness auto
termination
  by (relation "measure (\<lambda>(old, new, s). length s)") (auto simp: Suc_le_eq)

definition lower_char :: "char \<Rightarrow> char" where
  "lower_char c =
     (let n = (of_char c :: nat)
      in if (65 \<le> n \<and> n \<le> 90) \<or> (192 \<le> n \<and> n \<le> 222 \<and> n \<noteq> 215)
         then char_of (n + 32) else c)"

definition lower :: "string \<Rightarrow> string" where
  "lower s = map lower_char s"

text \<open>
  \<^verbatim>\<open>int(x)\<close> on a string: surrounding whitespace is dropped, then an optional sign and
  decimal digits, where single underscores may separate digits. \<open>None\<close> is
  \<^verbatim>\<open>ValueError\<close>. (CPython's limit on the number of digits is not modelled.)
\<close>

definition int_space :: "char \<Rightarrow> bool" where
  "int_space c = ((of_char c :: nat) \<in> {9, 10, 11, 12, 13, 32, 133, 160})"

definition isdigit :: "char \<Rightarrow> bool" where
  "isdigit c = (48 \<le> (of_char c :: nat) \<and> (of_char c :: nat) \<le> 57)"

definition digit_val :: "char \<Rightarrow> nat" where
  "digit_val c = of_char c - 48"

fun parse_digits :: "nat \<Rightarrow> string \<Rightarrow> nat option" where
  "parse_digits acc [] = Some acc"
| "parse_digits acc [c] = (if isdigit c then Some (10 * acc + digit_val c) else None)"
| "parse_digits acc (c # d # cs) =
     (if isdigit c then parse_digits (10 * acc + digit_val c) (d # cs)
      else if c = CHR ''_'' \<and> isdigit d then parse_digits acc (d # cs)
      else None)"

definition parse_unsigned :: "string \<Rightarrow> nat option" where
  "parse_unsigned s =
     (case s of [] \<Rightarrow> None
      | c # cs \<Rightarrow> if isdigit c then parse_digits (digit_val c) cs else None)"

definition py_int :: "string \<Rightarrow> int option" where
  "py_int x =
     (let s = rev (dropWhile int_space (rev (dropWhile int_space x)))
      in case s of [] \<Rightarrow> None
         | c # cs \<Rightarrow>
             if c = CHR ''-'' then map_option (\<lambda>n. - int n) (parse_unsigned cs)
             else if c = CHR ''+'' then map_option int (parse_unsigned cs)
             else map_option int (parse_unsigned s))"

text \<open>The decimal rendering of a number inside an f-string.\<close>

fun str_nat :: "nat \<Rightarrow> string" where
  "str_nat n =
     (if n < 10 then [char_of (48 + n)]
      else str_nat (n div 10) @ [char_of (48 + n mod 10)])"

text \<open>
  The operations of Python objects that the code applies to decoded values, with the
  exception each raises on a value of the wrong type.
\<close>

fun py_getitem :: "json \<Rightarrow> string \<Rightarrow> exn + json" where
  "py_getitem (JObj kvs) k =
     (case map_of kvs k of None \<Rightarrow> Inl (KeyError (JStr k)) | Some v \<Rightarrow> Inr v)"
| "py_getitem _ k = Inl TypeError"

fun py_keys :: "json \<Rightarrow> exn + string list" where
  "py_keys (JObj kvs) = Inr (map fst kvs)"
| "py_keys _ = Inl AttributeError"

fun py_get :: "json \<Rightarrow> string \<Rightarrow> json \<Rightarrow> exn + json" where
  "py_get (JObj kvs) k dflt = Inr (case map_of kvs k of None \<Rightarrow> dflt | Some v \<Rightarrow> v)"
| "py_get _ k dflt = Inl AttributeError"

fun py_len :: "json \<Rightarrow> exn + nat" where
  "py_len (JStr s) = Inr (length s)"
| "py_len (JArr xs) = Inr (length xs)"
| "py_len (JObj kvs) = Inr (length kvs)"
| "py_len _ = Inl TypeError"

fun py_index :: "json \<Rightarrow> nat \<Rightarrow> exn + json" where
  "py_index (JArr xs) i = (if i < length xs then Inr (xs ! i) else Inl IndexError)"
| "py_index (JStr s) i = (if i < length s then Inr (JStr [s ! i]) else Inl IndexError)"
| "py_index (JObj kvs) i = Inl (KeyError (JInt (int i)))"
| "py_index _ i = Inl TypeError"

fun py_lower :: "json \<Rightarrow> exn + string" where
  "py_lower (JStr s) = Inr (lower s)"
| "py_lower _ = Inl AttributeError"

fun truthy :: "json \<Rightarrow> bool" where
  "truthy JNull = False"
| "truthy (JBool b) = b"
| "truthy (JInt i) = (i \<noteq> 0)"
| "truthy (JFloat r) = (r \<noteq> 0)"
| "truthy (JStr s) = (s \<noteq> [])"
| "truthy (JArr xs) = (xs \<noteq> [])"
| "truthy (JObj kvs) = (kvs \<noteq> [])"

text \<open>
  \<^verbatim>\<open>sorted(keys, key=lambda x: int(x))\<close>: the key function is applied to every element
  first, so one key that is not an integer raises \<^verbatim>\<open>ValueError\<close>; then the sort is
  stable.
\<close>

definition sorted_by_int :: "string list \<Rightarrow> exn + string list" where
  "sorted_by_int ks =
     (if list_all (\<lambda>k. py_int k \<noteq> None) ks
      then Inr (sort_key (\<lambda>k. the (py_int k)) ks)
      else Inl ValueError)"

declare replace.simps [simp del]
declare str_nat.simps [simp del]

section \<open>The question generator (mcq_generator.py)\<close>

text \<open>
  One call of \<^verbatim>\<open>mcq_chain.invoke\<close> sends the arguments below to the generation
  service. The service is outside the program: it is a parameter that maps the
  exchanges so far and the call to the text it returns or the exception it raises.
  The list of exchanges is the state threaded through the generator, so that every
  outbound call is visible. \<^verbatim>\<open>json.loads\<close> is a parameter too.
\<close>

record call =
  arg_topic :: string
  arg_number :: nat
  arg_difficulty :: string

type_synonym exchange = "call \<times> (exn + string)"

type_synonym service = "exchange list \<Rightarrow> call \<Rightarrow> exn + string"

type_synonym loads = "string \<Rightarrow> exn + json"

definition clean_json_response :: "string \<Rightarrow> string" where
  "clean_json_response response_text =
     (let cleaned = replace ''```json'' '''' response_text;
          cleaned = replace ''```'' '''' cleaned;
          cleaned = strip cleaned
      in cleaned)"

text \<open>
  \<^verbatim>\<open>generate_questions_by_difficulty\<close>: the whole body is inside \<^verbatim>\<open>try\<close>. The result is
  \<open>Inr\<close> of the returned value, where \<^verbatim>\<open>None\<close> is \<open>JNull\<close> (the same value that the
  text \<^verbatim>\<open>null\<close> decodes to), or \<open>Inl\<close> of the exception that leaves the function.

  The first \<^verbatim>\<open>except\<close> clause, for \<^verbatim>\<open>json.JSONDecodeError\<close>, prints \<^verbatim>\<open>raw_response\<close>
  before it returns \<^verbatim>\<open>None\<close>. When it is the call to the service that raised this
  exception, \<^verbatim>\<open>raw_response\<close> has not been assigned: reading it raises
  \<^verbatim>\<open>UnboundLocalError\<close> inside the handler, which the second clause does not catch.
  When \<^verbatim>\<open>json.loads\<close> raised it, the variable is bound and \<^verbatim>\<open>None\<close> is returned. The
  second clause, for every other exception of the call or of the decoding, returns
  \<^verbatim>\<open>None\<close>.
\<close>

definition generate_questions_by_difficulty ::
  "service \<Rightarrow> loads \<Rightarrow> string \<Rightarrow> nat \<Rightarrow> string \<Rightarrow> exchange list
     \<Rightarrow> (exn + json) \<times> exchange list" where
  "generate_questions_by_difficulty svc json_loads topic number difficulty hist =
     (let c = \<lparr>arg_topic = topic, arg_number = number, arg_difficulty = difficulty\<rparr>;
          r = svc hist c;
          hist' = hist @ [(c, r)]
      in case r of
           Inl e \<Rightarrow>
             (if e = JSONDecodeError then (Inl UnboundLocalError, hist')
              else (Inr JNull, hist'))
         | Inr raw_response \<Rightarrow>
             (case json_loads (clean_json_response raw_response) of
                Inl e \<Rightarrow> (Inr JNull, hist')
              | Inr questions_dict \<Rightarrow> (Inr questions_dict, hist')))"

record question_obj =
  question_number :: nat
  question :: json
  options :: json
  correct :: json
  difficulty :: string

record quiz_result =
  success :: bool
  message :: string
  questions :: "question_obj list"
  topic :: "string option"

text \<open>
  The loop that \<^verbatim>\<open>generate_quiz\<close> runs over the sorted keys of a tier. The source has
  three copies of it, which differ in the difficulty label only. The values of the dict
  display are evaluated in the order they are written, so the first missing field in
  the order question, options, correct is the one the \<^verbatim>\<open>KeyError\<close> names.
\<close>

fun tier_loop ::
  "json \<Rightarrow> string \<Rightarrow> string list \<Rightarrow> question_obj list \<Rightarrow> exn + question_obj list" where
  "tier_loop tier_questions label [] all_questions = Inr all_questions"
| "tier_loop tier_questions label (key # keys) all_questions =
     (case py_getitem tier_questions key of
        Inl e \<Rightarrow> Inl e
      | Inr question_data \<Rightarrow>
     (case py_getitem question_data ''question'' of
        Inl e \<Rightarrow> Inl e
      | Inr q \<Rightarrow>
     (case py_getitem question_data ''options'' of
        Inl e \<Rightarrow> Inl e
      | Inr opts \<Rightarrow>
     (case py_getitem question_data ''correct'' of
        Inl e \<Rightarrow> Inl e
      | Inr c \<Rightarrow>
          tier_loop tier_questions label keys
            (all_questions @
              [\<lparr>question_number = length all_questions + 1, question = q,
                options = opts, correct = c, difficulty = label\<rparr>])))))"

definition append_tier :: "json \<Rightarrow> string \<Rightarrow> question_obj list \<Rightarrow> exn + question_obj list" where
  "append_tier tier_questions label all_questions =
     (case py_keys tier_questions of
        Inl e \<Rightarrow> Inl e
      | Inr ks \<Rightarrow>
          (case sorted_by_int ks of
             Inl e \<Rightarrow> Inl e
           | Inr sorted_keys \<Rightarrow> tier_loop tier_questions label sorted_keys all_questions))"

definition failure :: "string \<Rightarrow> quiz_result" where
  "failure msg = \<lparr>success = False, message = msg, questions = [], topic = None\<rparr>"

text \<open>
  \<^verbatim>\<open>generate_quiz\<close>. The result is \<open>Inl\<close> when an exception leaves the function (it has no
  \<^verbatim>\<open>try\<close> of its own) and \<open>Inr\<close> of the returned dict otherwise.
\<close>

definition generate_quiz ::
  "service \<Rightarrow> loads \<Rightarrow> string \<Rightarrow> exchange list \<Rightarrow> (exn + quiz_result) \<times> exchange list" where
  "generate_quiz svc json_loads topic0 hist0 =
     (if topic0 = [] \<or> strip topic0 = [] then
        (Inr (failure ''Please provide a topic for the quiz''), hist0)
      else
        let topic = strip topic0;
            all_questions = [];
            (easy_call, hist1) =
              generate_questions_by_difficulty svc json_loads topic 5 ''EASY'' hist0
        in
        case easy_call of
          Inl e \<Rightarrow> (Inl e, hist1)
        | Inr easy_questions \<Rightarrow>
        if easy_questions = JNull then
          (Inr (failure ''Failed to generate easy questions. Please try again.''), hist1)
        else case append_tier easy_questions ''EASY'' all_questions of
          Inl e \<Rightarrow> (Inl e, hist1)
        | Inr all_questions \<Rightarrow>
        let (medium_call, hist2) =
              generate_questions_by_difficulty svc json_loads topic 3 ''MEDIUM'' hist1
        in
        case medium_call of
          Inl e \<Rightarrow> (Inl e, hist2)
        | Inr medium_questions \<Rightarrow>
        if medium_questions = JNull then
          (Inr (failure ''Failed to generate medium questions. Please try again.''), hist2)
        else case append_tier medium_questions ''MEDIUM'' all_questions of
          Inl e \<Rightarrow> (Inl e, hist2)
        | Inr all_questions \<Rightarrow>
        let (hard_call, hist3) =
              generate_questions_by_difficulty svc json_loads topic 2 ''HARD'' hist2
        in
        case hard_call of
          Inl e \<Rightarrow> (Inl e, hist3)
        | Inr hard_questions \<Rightarrow>
        if hard_questions = JNull then
          (Inr (failure ''Failed to generate hard questions. Please try again.''), hist3)
        else case append_tier hard_questions ''HARD'' all_questions of
          Inl e \<Rightarrow> (Inl e, hist3)
        | Inr all_questions \<Rightarrow>
        if length all_questions \<noteq> 10 then
          (Inr (failure (''Expected 10 questions but got '' @ str_nat (length all_questions)
                          @ ''. Please try again.'')), hist3)
        else
          (Inr \<lparr>success = True, message = ''Quiz generated successfully'',
                 questions = all_questions, topic = Some topic\<rparr>, hist3))"

section \<open>The submit handler (app.py) and the history store (database.py)\<close>

text \<open>
  The Flask session holds the logged-in user and the active quiz. A key that is absent
  is \<open>None\<close>; the questions are the list that \<^verbatim>\<open>generate_quiz\<close> returned.
\<close>

record session =
  user_id :: "int option"
  username :: "string option"
  current_topic :: "string option"
  current_questions :: "question_obj list option"

definition is_logged_in :: "session \<Rightarrow> bool" where
  "is_logged_in s = (user_id s \<noteq> None)"

definition get_current_user_id :: "session \<Rightarrow> int option" where
  "get_current_user_id s = user_id s"

text \<open>
  \<^verbatim>\<open>database.create_game_history\<close> talks to MySQL. What the handler sees of it is the
  returned dict, which depends on whether the connection is made and whether a
  statement raises a database error.
\<close>

datatype db = NoConnection | QueryError | Available

record save_result =
  db_success :: bool
  db_message :: string

definition create_game_history :: "db \<Rightarrow> int option \<Rightarrow> json \<Rightarrow> nat \<Rightarrow> string \<Rightarrow> save_result" where
  "create_game_history d uid tp sc res =
     (case d of
        NoConnection \<Rightarrow> \<lparr>db_success = False, db_message = ''Database connection failed''\<rparr>
      | QueryError \<Rightarrow> \<lparr>db_success = False, db_message = ''Failed to save game history''\<rparr>
      | Available \<Rightarrow> \<lparr>db_success = True, db_message = ''Game history saved successfully''\<rparr>)"

record detail =
  d_question_number :: nat
  user_answer :: string
  correct_answer :: string
  is_correct :: bool
  d_question :: json
  d_difficulty :: string

record scored =
  score :: nat
  total :: nat
  result :: string
  s_topic :: json
  detailed_results :: "detail list"
  saved :: bool

text \<open>
  A response body is the failure dict (success false, with a message) or the scored
  dict (success true); it is returned with its HTTP status.
\<close>

datatype body = Failure string | Scored scored

type_synonym response = "body \<times> nat"

text \<open>
  The scoring loop of \<^verbatim>\<open>api_submit_game\<close>: \<open>i\<close> is the index of \<^verbatim>\<open>enumerate\<close>, \<open>n\<close> is
  \<^verbatim>\<open>len(user_answers)\<close>.
\<close>

fun score_loop ::
  "json \<Rightarrow> nat \<Rightarrow> question_obj list \<Rightarrow> nat \<Rightarrow> nat \<Rightarrow> detail list \<Rightarrow> exn + nat \<times> detail list" where
  "score_loop user_answers n [] i sc detailed = Inr (sc, detailed)"
| "score_loop user_answers n (q # qs) i sc detailed =
     (case (if i < n
            then (case py_index user_answers i of Inl e \<Rightarrow> Inl e | Inr a \<Rightarrow> py_lower a)
            else Inr '''') of
        Inl e \<Rightarrow> Inl e
      | Inr ua \<Rightarrow>
     (case py_lower (correct q) of
        Inl e \<Rightarrow> Inl e
      | Inr ca \<Rightarrow>
          let ok = (ua = ca);
              sc' = (if ok then sc + 1 else sc)
          in score_loop user_answers n qs (i + 1) sc'
               (detailed @
                 [\<lparr>d_question_number = i + 1, user_answer = ua, correct_answer = ca,
                   is_correct = ok, d_question = question q,
                   d_difficulty = difficulty q\<rparr>])))"

text \<open>
  \<^verbatim>\<open>api_submit_game\<close>: \<open>data\<close> is the decoded request body. The result is the response, or
  the exception that leaves the handler, and the session afterwards.
\<close>

definition api_submit_game :: "db \<Rightarrow> session \<Rightarrow> json \<Rightarrow> (exn + response) \<times> session" where
  "api_submit_game d s data =
     (if \<not> is_logged_in s then (Inr (Failure ''Not logged in'', 401), s)
      else if data = JNull then (Inr (Failure ''No data received'', 400), s)
      else case py_get data ''answers'' (JArr []) of
        Inl e \<Rightarrow> (Inl e, s)
      | Inr user_answers \<Rightarrow>
      (case py_get data ''topic'' (JStr '''') of
        Inl e \<Rightarrow> (Inl e, s)
      | Inr tp \<Rightarrow>
      let qs = (case current_questions s of None \<Rightarrow> [] | Some l \<Rightarrow> l) in
      if qs = [] then (Inr (Failure ''No active quiz found'', 400), s)
      else case py_len user_answers of
        Inl e \<Rightarrow> (Inl e, s)
      | Inr n \<Rightarrow>
      if n \<noteq> length qs then
        (Inr (Failure (''Expected '' @ str_nat (length qs) @ '' answers but received ''
                       @ str_nat n), 400), s)
      else case score_loop user_answers n qs 0 0 [] of
        Inl e \<Rightarrow> (Inl e, s)
      | Inr (sc, detailed) \<Rightarrow>
      let res = (if sc \<ge> 7 then ''WON'' else ''LOST'');
          uid = get_current_user_id s;
          tp = (if \<not> truthy tp
                then (case current_topic s of None \<Rightarrow> JStr ''Unknown Topic'' | Some t \<Rightarrow> JStr t)
                else tp);
          sr = create_game_history d uid tp sc res;
          s = s\<lparr>current_questions := None\<rparr>;
          s = s\<lparr>current_topic := None\<rparr>
      in (Inr (Scored \<lparr>score = sc, total = 10, result = res, s_topic = tp,
                        detailed_results = detailed, saved = db_success sr\<rparr>, 200), s)))"

section \<open>Vocabulary of the properties\<close>

text \<open>
  How \<^verbatim>\<open>generate_questions_by_difficulty\<close> ends for one outcome of the call to the
  service (lemma \<open>generate_questions_by_difficulty_eq\<close> below): \<open>Inr JNull\<close> is the
  returned failure value \<^verbatim>\<open>None\<close>, \<open>Inr\<close> of another value is the decoded response,
  and \<open>Inl\<close> is the exception that leaves the function.
\<close>

definition decode_outcome :: "loads \<Rightarrow> exn + string \<Rightarrow> exn + json" where
  "decode_outcome json_loads r =
     (case r of
        Inl e \<Rightarrow> (if e = JSONDecodeError then Inl UnboundLocalError else Inr JNull)
      | Inr raw_response \<Rightarrow>
          (case json_loads (clean_json_response raw_response) of
             Inl e \<Rightarrow> Inr JNull
           | Inr questions_dict \<Rightarrow> Inr questions_dict))"

text \<open>The message with which \<^verbatim>\<open>generate_quiz\<close> names the tier that failed.\<close>

definition tier_failure_message :: "string \<Rightarrow> string" where
  "tier_failure_message label =
     (if label = ''EASY'' then ''Failed to generate easy questions. Please try again.''
      else if label = ''MEDIUM'' then ''Failed to generate medium questions. Please try again.''
      else ''Failed to generate hard questions. Please try again.'')"

text \<open>
  The label invariant of the data model: the options are a mapping with exactly the
  four keys a, b, c, d, and the correct label is one of its keys.
\<close>

definition labels_ok :: "json \<Rightarrow> json \<Rightarrow> bool" where
  "labels_ok opts c =
     (case opts of
        JObj kvs \<Rightarrow>
          length kvs = 4 \<and> set (map fst kvs) = {''a'', ''b'', ''c'', ''d''} \<and>
          (case c of JStr l \<Rightarrow> l \<in> set (map fst kvs) | _ \<Rightarrow> False)
      | _ \<Rightarrow> False)"

definition question_ok :: "question_obj \<Rightarrow> bool" where
  "question_ok q = labels_ok (options q) (correct q)"

definition entry_ok :: "json \<Rightarrow> bool" where
  "entry_ok v =
     (case py_getitem v ''options'' of
        Inl e \<Rightarrow> False
      | Inr opts \<Rightarrow>
          (case py_getitem v ''correct'' of Inl e \<Rightarrow> False | Inr c \<Rightarrow> labels_ok opts c))"

text \<open>
  The question that the composer builds from the entry under \<open>key\<close> of a tier, with
  sequence number \<open>n\<close>.
\<close>

definition built_from :: "json \<Rightarrow> string \<Rightarrow> string \<Rightarrow> nat \<Rightarrow> question_obj \<Rightarrow> bool" where
  "built_from tier_questions key label n q =
     (case py_getitem tier_questions key of
        Inl e \<Rightarrow> False
      | Inr question_data \<Rightarrow>
          py_getitem question_data ''question'' = Inr (question q) \<and>
          py_getitem question_data ''options'' = Inr (options q) \<and>
          py_getitem question_data ''correct'' = Inr (correct q) \<and>
          difficulty q = label \<and> question_number q = n)"

text \<open>An entry that lacks one of the three fields the composer reads.\<close>

definition lacks_field :: "json \<Rightarrow> bool" where
  "lacks_field v =
     (case v of
        JObj flds \<Rightarrow> \<not> set [''question'', ''options'', ''correct''] \<subseteq> set (map fst flds)
      | _ \<Rightarrow> False)"

definition is_dict :: "json \<Rightarrow> bool" where
  "is_dict v = (case v of JObj flds \<Rightarrow> True | _ \<Rightarrow> False)"

text \<open>\<^verbatim>\<open>session.get("current_questions", [])\<close>.\<close>

definition held_questions :: "session \<Rightarrow> question_obj list" where
  "held_questions s = (case current_questions s of None \<Rightarrow> [] | Some l \<Rightarrow> l)"

section \<open>Sample inputs\<close>

text \<open>
  JSON texts as the service may return them, and the values \<^verbatim>\<open>json.loads\<close> decodes them
  to. \<open>sample_loads\<close> agrees with \<^verbatim>\<open>json.loads\<close> on these texts, the only ones it is
  applied to below, and rejects every other text.
\<close>

definition entry_text :: string where
  \<open>entry_text = ''{"question":"q","options":{"a":"w","b":"x","c":"y","d":"z"},"correct":"a"}''\<close>

definition entry_json :: json where
  "entry_json =
     JObj [(''question'', JStr ''q''),
           (''options'', JObj [(''a'', JStr ''w''), (''b'', JStr ''x''), (''c'', JStr ''y''),
                               (''d'', JStr ''z'')]),
           (''correct'', JStr ''a'')]"

definition odd_text :: string where
  \<open>odd_text = ''{"question":"q","options":{"a":"w"},"correct":"z"}''\<close>

definition odd_json :: json where
  "odd_json =
     JObj [(''question'', JStr ''q''), (''options'', JObj [(''a'', JStr ''w'')]),
           (''correct'', JStr ''z'')]"

definition bare_text :: string where
  \<open>bare_text = ''{"options":{"a":"w","b":"x","c":"y","d":"z"},"correct":"a"}''\<close>

definition bare_json :: json where
  "bare_json =
     JObj [(''options'', JObj [(''a'', JStr ''w''), (''b'', JStr ''x''), (''c'', JStr ''y''),
                               (''d'', JStr ''z'')]),
           (''correct'', JStr ''a'')]"

fun members_text :: "(string \<times> string) list \<Rightarrow> string" where
  "members_text [] = []"
| \<open>members_text [(k, t)] = ''"'' @ k @ ''":'' @ t\<close>
| \<open>members_text ((k, t) # m # ms) = ''"'' @ k @ ''":'' @ t @ '','' @ members_text (m # ms)\<close>

definition object_text :: "(string \<times> string) list \<Rightarrow> string" where
  "object_text ms = ''{'' @ members_text ms @ ''}''"

definition sample_tier :: "string list \<Rightarrow> json" where
  "sample_tier ks = JObj (map (\<lambda>k. (k, entry_json)) ks)"

definition odd_tier :: "string list \<Rightarrow> json" where
  "odd_tier ks = JObj (map (\<lambda>k. (k, odd_json)) ks)"

definition sample_table :: "(string \<times> json) list" where
  "sample_table =
     [(object_text (map (\<lambda>k. (k, entry_text)) [''1'', ''2'', ''3'', ''4'', ''5'']),
       sample_tier [''1'', ''2'', ''3'', ''4'', ''5'']),
      (object_text (map (\<lambda>k. (k, entry_text)) [''1'', ''2'', ''3'', ''4'']),
       sample_tier [''1'', ''2'', ''3'', ''4'']),
      (object_text (map (\<lambda>k. (k, entry_text)) [''1'', ''2'', ''3'']),
       sample_tier [''1'', ''2'', ''3'']),
      (object_text (map (\<lambda>k. (k, entry_text)) [''1'', ''2'']),
       sample_tier [''1'', ''2'']),
      (object_text (map (\<lambda>k. (k, odd_text)) [''1'', ''2'', ''3'', ''4'', ''5'']),
       odd_tier [''1'', ''2'', ''3'', ''4'', ''5'']),
      (object_text [(''1'', bare_text)], JObj [(''1'', bare_json)])]"

definition sample_loads :: loads where
  "sample_loads s = (case map_of sample_table s of None \<Rightarrow> Inl JSONDecodeError | Some j \<Rightarrow> Inr j)"

text \<open>A tier whose keys are listed in lexical order, which is not the numeric one.\<close>

definition ten_two :: "(string \<times> json) list" where
  "ten_two =
     [(''10'', JObj [(''question'', JStr ''tenth''), (''options'', JObj []),
                     (''correct'', JStr ''a'')]),
      (''2'', JObj [(''question'', JStr ''second''), (''options'', JObj []),
                    (''correct'', JStr ''b'')])]"

text \<open>A service that answers each tier with a fixed outcome.\<close>

definition tiered :: "(exn + string) \<Rightarrow> (exn + string) \<Rightarrow> (exn + string) \<Rightarrow> service" where
  "tiered e m h hist c =
     (if arg_difficulty c = ''EASY'' then e
      else if arg_difficulty c = ''MEDIUM'' then m
      else h)"

definition good :: "string list \<Rightarrow> exn + string" where
  "good ks = Inr (object_text (map (\<lambda>k. (k, entry_text)) ks))"

definition odd :: "string list \<Rightarrow> exn + string" where
  "odd ks = Inr (object_text (map (\<lambda>k. (k, odd_text)) ks))"

definition bare :: "exn + string" where
  "bare = Inr (object_text [(''1'', bare_text)])"

text \<open>The question built from \<open>entry_json\<close>.\<close>

definition sample_question :: "nat \<Rightarrow> string \<Rightarrow> question_obj" where
  "sample_question n label =
     \<lparr>question_number = n, question = JStr ''q'',
      options = JObj [(''a'', JStr ''w''), (''b'', JStr ''x''), (''c'', JStr ''y''),
                      (''d'', JStr ''z'')],
      correct = JStr ''a'', difficulty = label\<rparr>"

text \<open>The question built from \<open>odd_json\<close>.\<close>

definition odd_question :: "nat \<Rightarrow> string \<Rightarrow> question_obj" where
  "odd_question n label =
     \<lparr>question_number = n, question = JStr ''q'', options = JObj [(''a'', JStr ''w'')],
      correct = JStr ''z'', difficulty = label\<rparr>"

text \<open>Sessions of a logged-in user and request bodies for the submit handler.\<close>

definition quiz_questions :: "question_obj list" where
  "quiz_questions =
     [sample_question 1 ''EASY'', sample_question 2 ''EASY'',
      sample_question 3 ''EASY'', sample_question 4 ''EASY'',
      sample_question 5 ''EASY'',
      sample_question 6 ''MEDIUM'', sample_question 7 ''MEDIUM'',
      sample_question 8 ''MEDIUM'',
      sample_question 9 ''HARD'', sample_question 10 ''HARD'']"

definition quiz_session :: session where
  "quiz_session =
     \<lparr>user_id = Some 1, username = Some ''ann'', current_topic = Some ''Oceans'',
      current_questions = Some quiz_questions\<rparr>"

text \<open>Ten answers of which seven, and six, match the label a of the sample questions.\<close>

definition seven_right :: "string list" where
  "seven_right = [''A'', ''A'', ''A'', ''A'', ''A'', ''A'', ''A'', ''b'', ''b'', ''b'']"

definition six_right :: "string list" where
  "six_right = [''A'', ''A'', ''A'', ''A'', ''A'', ''A'', ''b'', ''b'', ''b'', ''b'']"

definition short_session :: session where
  "short_session =
     \<lparr>user_id = Some 1, username = Some ''ann'', current_topic = Some ''Oceans'',
      current_questions = Some [sample_question 1 ''EASY'', sample_question 2 ''EASY'']\<rparr>"

definition empty_session :: session where
  "empty_session =
     \<lparr>user_id = Some 1, username = Some ''ann'', current_topic = None,
      current_questions = None\<rparr>"

definition answers_body :: "string list \<Rightarrow> json" where
  "answers_body answers = JObj [(''answers'', JArr (map JStr answers))]"

section \<open>Cleaning and decoding a response\<close>

lemma replace_absent:
  "old \<noteq> [] \<Longrightarrow> hd old \<notin> set s \<Longrightarrow> replace old new s = s"
proof (induction s)
  case Nil
  then show ?case by (simp add: replace.simps)
next
  case (Cons c cs)
  then have "take (length old) (c # cs) \<noteq> old"
    by (cases old) auto
  with Cons show ?case
    by (subst replace.simps) simp
qed

lemma replace_skip:
  "old \<noteq> [] \<Longrightarrow> hd old \<notin> set s \<Longrightarrow> replace old new (s @ t) = s @ replace old new t"
proof (induction s)
  case Nil
  then show ?case by simp
next
  case (Cons c cs)
  then have "take (length old) (c # cs @ t) \<noteq> old"
    by (cases old) auto
  with Cons show ?case
    by (subst replace.simps) simp
qed

lemma replace_here: "old \<noteq> [] \<Longrightarrow> replace old new (old @ t) = new @ replace old new t"
  by (subst replace.simps) simp

lemma dropWhile_hd: "xs \<noteq> [] \<Longrightarrow> \<not> P (hd xs) \<Longrightarrow> dropWhile P xs = xs"
  by (cases xs) auto

lemma strip_id: "s \<noteq> [] \<Longrightarrow> \<not> isspace (hd s) \<Longrightarrow> \<not> isspace (last s) \<Longrightarrow> strip s = s"
  by (simp add: strip_def dropWhile_hd hd_rev)

lemma strip_newlines:
  assumes "s \<noteq> []" "\<not> isspace (hd s)" "\<not> isspace (last s)"
  shows "strip (CHR 0x0A # s @ [CHR 0x0A]) = s"
proof -
  have nl: "isspace (CHR 0x0A)"
    by (simp add: isspace_def)
  have "dropWhile isspace (CHR 0x0A # s @ [CHR 0x0A]) = s @ [CHR 0x0A]"
    using assms nl by (cases s) auto
  moreover have "dropWhile isspace (rev (s @ [CHR 0x0A])) = rev s"
    using assms nl by (simp add: dropWhile_hd hd_rev)
  ultimately show ?thesis
    by (simp add: strip_def)
qed

text \<open>Text without fences and without surrounding whitespace is left as it is.\<close>

lemma clean_json_response_plain:
  "s \<noteq> [] \<Longrightarrow> CHR 0x60 \<notin> set s \<Longrightarrow> \<not> isspace (hd s) \<Longrightarrow> \<not> isspace (last s) \<Longrightarrow>
   clean_json_response s = s"
  by (simp add: clean_json_response_def replace_absent strip_id)

text \<open>A fenced block is reduced to its content.\<close>

lemma clean_json_response_fenced:
  assumes "s \<noteq> []" "CHR 0x60 \<notin> set s" "\<not> isspace (hd s)" "\<not> isspace (last s)"
  shows "clean_json_response (''```json'' @ [CHR 0x0A] @ s @ [CHR 0x0A] @ ''```'') = s"
proof -
  have tail1: "replace ''```json'' '''' ''```'' = ''```''"
    by (simp add: replace.simps)
  have tail2: "replace ''```'' '''' ''```'' = ''''"
    by (simp add: replace.simps)
  have "replace ''```json'' '''' (''```json'' @ ((CHR 0x0A # s @ [CHR 0x0A]) @ ''```''))
        = '''' @ replace ''```json'' '''' ((CHR 0x0A # s @ [CHR 0x0A]) @ ''```'')"
    by (rule replace_here) simp
  also have "replace ''```json'' '''' ((CHR 0x0A # s @ [CHR 0x0A]) @ ''```'')
        = (CHR 0x0A # s @ [CHR 0x0A]) @ replace ''```json'' '''' ''```''"
    using assms by (intro replace_skip) auto
  finally have step1:
    "replace ''```json'' '''' (''```json'' @ [CHR 0x0A] @ s @ [CHR 0x0A] @ ''```'')
       = (CHR 0x0A # s @ [CHR 0x0A]) @ ''```''"
    by (simp add: tail1)
  have step2: "replace ''```'' '''' ((CHR 0x0A # s @ [CHR 0x0A]) @ ''```'') = CHR 0x0A # s @ [CHR 0x0A]"
    using assms by (subst replace_skip) (auto simp: tail2)
  show ?thesis
    unfolding clean_json_response_def Let_def step1 step2
    using assms(1,3,4) by (rule strip_newlines)
qed

lemma clean_json_response_object_text:
  "CHR 0x60 \<notin> set (members_text ms) \<Longrightarrow> clean_json_response (object_text ms) = object_text ms"
  by (rule clean_json_response_plain) (simp_all add: object_text_def isspace_def)

text \<open>
  How \<^verbatim>\<open>generate_questions_by_difficulty\<close> ends is \<open>decode_outcome\<close> of the outcome of its
  single call.
\<close>

lemma generate_questions_by_difficulty_eq:
  "generate_questions_by_difficulty svc json_loads t number label hist =
     (decode_outcome json_loads (svc hist \<lparr>arg_topic = t, arg_number = number, arg_difficulty = label\<rparr>),
      hist @ [(\<lparr>arg_topic = t, arg_number = number, arg_difficulty = label\<rparr>,
               svc hist \<lparr>arg_topic = t, arg_number = number, arg_difficulty = label\<rparr>)])"
  by (simp add: generate_questions_by_difficulty_def decode_outcome_def Let_def split: sum.splits)

section \<open>Failure of the generation call\<close>

text \<open>
  For every exception of the call other than \<^verbatim>\<open>json.JSONDecodeError\<close>, the function
  returns \<^verbatim>\<open>None\<close>, and the recorded exchanges grow by this one call only: there is no
  second attempt.
\<close>

lemma other_generation_error_returns_None:
  assumes "svc hist \<lparr>arg_topic = t, arg_number = number, arg_difficulty = label\<rparr> = Inl e"
    and "e \<noteq> JSONDecodeError"
  shows "generate_questions_by_difficulty svc json_loads t number label hist =
           (Inr JNull,
            hist @ [(\<lparr>arg_topic = t, arg_number = number, arg_difficulty = label\<rparr>, Inl e)])"
  using assms by (simp add: generate_questions_by_difficulty_def Let_def)

lemma generation_timeout_returns_None:
  "generate_questions_by_difficulty
     (tiered (Inl (ServiceError ''timeout'')) (good [''1'']) (good [''1'']))
     sample_loads ''Oceans'' 5 ''EASY'' []
   = (Inr JNull, [(\<lparr>arg_topic = ''Oceans'', arg_number = 5, arg_difficulty = ''EASY''\<rparr>,
                    Inl (ServiceError ''timeout''))])"
  by (simp add: generate_questions_by_difficulty_def Let_def tiered_def)

text \<open>
  Claim C8: whatever exception the call to the generation service raises,
  \<^verbatim>\<open>generate_questions_by_difficulty\<close> should catch it and return \<^verbatim>\<open>None\<close>. Here the
  call raises \<^verbatim>\<open>json.JSONDecodeError\<close>. The first \<^verbatim>\<open>except\<close> clause takes it and prints
  \<^verbatim>\<open>raw_response\<close>, which was never assigned: \<^verbatim>\<open>UnboundLocalError\<close> leaves the function
  and no value is returned. Still only one call is made.
\<close>

theorem generation_JSONDecodeError_escapes:
  "generate_questions_by_difficulty
     (tiered (Inl JSONDecodeError) (good [''1'']) (good [''1'']))
     sample_loads ''Oceans'' 5 ''EASY'' []
   = (Inl UnboundLocalError,
      [(\<lparr>arg_topic = ''Oceans'', arg_number = 5, arg_difficulty = ''EASY''\<rparr>,
        Inl JSONDecodeError)])"
  by (simp add: generate_questions_by_difficulty_def Let_def tiered_def)

section \<open>The composition of a quiz\<close>

lemma tier_loop_Inr:
  "tier_loop t lab ks all = Inr all' \<Longrightarrow>
   \<exists>new. all' = all @ new \<and> length new = length ks \<and>
     (\<forall>i<length ks. built_from t (ks ! i) lab (length all + i + 1) (new ! i))"
proof (induction ks arbitrary: all)
  case Nil
  then show ?case by simp
next
  case (Cons key keys)
  from Cons.prems obtain qd q opts c where
    qd: "py_getitem t key = Inr qd"
    and f: "py_getitem qd ''question'' = Inr q" "py_getitem qd ''options'' = Inr opts"
       "py_getitem qd ''correct'' = Inr c"
    and rest: "tier_loop t lab keys
        (all @ [\<lparr>question_number = length all + 1, question = q, options = opts,
                  correct = c, difficulty = lab\<rparr>]) = Inr all'"
    by (auto split: sum.splits)
  let ?q = "\<lparr>question_number = length all + 1, question = q, options = opts,
                  correct = c, difficulty = lab\<rparr>"
  from Cons.IH [OF rest] obtain new where
    new: "all' = (all @ [?q]) @ new" "length new = length keys"
      "\<forall>i<length keys. built_from t (keys ! i) lab (length (all @ [?q]) + i + 1) (new ! i)"
    by blast
  have "built_from t ((key # keys) ! i) lab (length all + i + 1) ((?q # new) ! i)"
    if "i < length (key # keys)" for i
  proof (cases i)
    case 0
    then show ?thesis using qd f by (simp add: built_from_def)
  next
    case (Suc j)
    then show ?thesis using new(3) that by simp
  qed
  with new(1,2) show ?case
    by (intro exI [of _ "?q # new"]) simp
qed

text \<open>
  The ways in which a run of \<^verbatim>\<open>generate_quiz\<close> can end, with the exchanges it has made
  and the value of each tier that was decoded.
\<close>

lemma generate_quiz_run:
  assumes run: "generate_quiz svc jl topic0 hist0 = (r, hist)"
  obtains
    (blank) "hist = hist0" "r = Inr (failure ''Please provide a topic for the quiz'')"
  | (easy_call_raised) x1 e where "hist = hist0 @ [x1]"
      "decode_outcome jl (snd x1) = Inl e" "r = Inl e"
  | (easy_failed) x1 where "hist = hist0 @ [x1]" "arg_difficulty (fst x1) = ''EASY''"
      "decode_outcome jl (snd x1) = Inr JNull"
      "r = Inr (failure ''Failed to generate easy questions. Please try again.'')"
  | (easy_raised) x1 t1 e where "hist = hist0 @ [x1]"
      "decode_outcome jl (snd x1) = Inr t1" "t1 \<noteq> JNull"
      "append_tier t1 ''EASY'' [] = Inl e" "r = Inl e"
  | (medium_call_raised) x1 x2 t1 a1 e where "hist = hist0 @ [x1, x2]"
      "decode_outcome jl (snd x1) = Inr t1" "t1 \<noteq> JNull"
      "append_tier t1 ''EASY'' [] = Inr a1"
      "decode_outcome jl (snd x2) = Inl e" "r = Inl e"
  | (medium_failed) x1 x2 t1 a1 where "hist = hist0 @ [x1, x2]"
      "decode_outcome jl (snd x1) = Inr t1" "t1 \<noteq> JNull"
      "append_tier t1 ''EASY'' [] = Inr a1"
      "arg_difficulty (fst x2) = ''MEDIUM''" "decode_outcome jl (snd x2) = Inr JNull"
      "r = Inr (failure ''Failed to generate medium questions. Please try again.'')"
  | (medium_raised) x1 x2 t1 t2 a1 e where "hist = hist0 @ [x1, x2]"
      "decode_outcome jl (snd x1) = Inr t1" "t1 \<noteq> JNull"
      "append_tier t1 ''EASY'' [] = Inr a1"
      "decode_outcome jl (snd x2) = Inr t2" "t2 \<noteq> JNull"
      "append_tier t2 ''MEDIUM'' a1 = Inl e" "r = Inl e"
  | (hard_call_raised) x1 x2 x3 t1 t2 a1 a2 e where "hist = hist0 @ [x1, x2, x3]"
      "decode_outcome jl (snd x1) = Inr t1" "t1 \<noteq> JNull"
      "append_tier t1 ''EASY'' [] = Inr a1"
      "decode_outcome jl (snd x2) = Inr t2" "t2 \<noteq> JNull"
      "append_tier t2 ''MEDIUM'' a1 = Inr a2"
      "decode_outcome jl (snd x3) = Inl e" "r = Inl e"
  | (hard_failed) x1 x2 x3 t1 t2 a1 a2 where "hist = hist0 @ [x1, x2, x3]"
      "decode_outcome jl (snd x1) = Inr t1" "t1 \<noteq> JNull"
      "append_tier t1 ''EASY'' [] = Inr a1"
      "decode_outcome jl (snd x2) = Inr t2" "t2 \<noteq> JNull"
      "append_tier t2 ''MEDIUM'' a1 = Inr a2"
      "arg_difficulty (fst x3) = ''HARD''" "decode_outcome jl (snd x3) = Inr JNull"
      "r = Inr (failure ''Failed to generate hard questions. Please try again.'')"
  | (hard_raised) x1 x2 x3 t1 t2 t3 a1 a2 e where "hist = hist0 @ [x1, x2, x3]"
      "decode_outcome jl (snd x1) = Inr t1" "t1 \<noteq> JNull"
      "append_tier t1 ''EASY'' [] = Inr a1"
      "decode_outcome jl (snd x2) = Inr t2" "t2 \<noteq> JNull"
      "append_tier t2 ''MEDIUM'' a1 = Inr a2"
      "decode_outcome jl (snd x3) = Inr t3" "t3 \<noteq> JNull"
      "append_tier t3 ''HARD'' a2 = Inl e" "r = Inl e"
  | (counted) x1 x2 x3 t1 t2 t3 a1 a2 a3 where "hist = hist0 @ [x1, x2, x3]"
      "decode_outcome jl (snd x1) = Inr t1" "t1 \<noteq> JNull"
      "append_tier t1 ''EASY'' [] = Inr a1"
      "decode_outcome jl (snd x2) = Inr t2" "t2 \<noteq> JNull"
      "append_tier t2 ''MEDIUM'' a1 = Inr a2"
      "decode_outcome jl (snd x3) = Inr t3" "t3 \<noteq> JNull"
      "append_tier t3 ''HARD'' a2 = Inr a3"
      "r = Inr (if length a3 \<noteq> 10
                then failure (''Expected 10 questions but got '' @ str_nat (length a3)
                               @ ''. Please try again.'')
                else \<lparr>success = True, message = ''Quiz generated successfully'',
                       questions = a3, topic = Some (strip topic0)\<rparr>)"
proof (cases "topic0 = [] \<or> strip topic0 = []")
  case True
  with run have "hist = hist0" "r = Inr (failure ''Please provide a topic for the quiz'')"
    by (auto simp: generate_quiz_def)
  then show ?thesis by (rule blank)
next
  case topic_ok: False
  define c1 where "c1 = \<lparr>arg_topic = strip topic0, arg_number = 5, arg_difficulty = ''EASY''\<rparr>"
  define x1 where "x1 = (c1, svc hist0 c1)"
  define h1 where "h1 = hist0 @ [x1]"
  have g1: "generate_questions_by_difficulty svc jl (strip topic0) 5 ''EASY'' hist0
              = (decode_outcome jl (snd x1), h1)"
    by (simp add: generate_questions_by_difficulty_eq x1_def c1_def h1_def)
  have d1: "arg_difficulty (fst x1) = ''EASY''"
    by (simp add: x1_def c1_def)
  show ?thesis
  proof (cases "decode_outcome jl (snd x1)")
    case (Inl e)
    with run topic_ok g1 have "hist = h1" "r = Inl e"
      by (simp_all add: generate_quiz_def)
    with Inl show ?thesis
      by (intro easy_call_raised [of x1 e]) (simp_all add: h1_def)
  next
    case t1: (Inr t1)
    show ?thesis
    proof (cases "t1 = JNull")
      case True
      with run topic_ok g1 t1 have "hist = h1"
          "r = Inr (failure ''Failed to generate easy questions. Please try again.'')"
        by (simp_all add: generate_quiz_def)
      with True d1 t1 show ?thesis
        by (intro easy_failed [of x1]) (simp_all add: h1_def)
    next
      case n1: False
      show ?thesis
      proof (cases "append_tier t1 ''EASY'' []")
        case (Inl e)
        with run topic_ok g1 t1 n1 have "hist = h1" "r = Inl e"
          by (simp_all add: generate_quiz_def)
        with t1 n1 Inl show ?thesis
          by (intro easy_raised [of x1 t1 e]) (simp_all add: h1_def)
      next
        case a1: (Inr a1)
        define c2 where
          "c2 = \<lparr>arg_topic = strip topic0, arg_number = 3, arg_difficulty = ''MEDIUM''\<rparr>"
        define x2 where "x2 = (c2, svc h1 c2)"
        define h2 where "h2 = h1 @ [x2]"
        have g2: "generate_questions_by_difficulty svc jl (strip topic0) 3 ''MEDIUM'' h1
                    = (decode_outcome jl (snd x2), h2)"
          by (simp add: generate_questions_by_difficulty_eq x2_def c2_def h2_def)
        have d2: "arg_difficulty (fst x2) = ''MEDIUM''"
          by (simp add: x2_def c2_def)
        have h2: "h2 = hist0 @ [x1, x2]"
          by (simp add: h2_def h1_def)
        show ?thesis
        proof (cases "decode_outcome jl (snd x2)")
          case (Inl e)
          with run topic_ok g1 t1 n1 a1 g2 have "hist = h2" "r = Inl e"
            by (simp_all add: generate_quiz_def)
          with t1 n1 a1 Inl h2 show ?thesis
            by (intro medium_call_raised [of x1 x2 t1 a1 e]) simp_all
        next
          case t2: (Inr t2)
          show ?thesis
          proof (cases "t2 = JNull")
            case True
            with run topic_ok g1 t1 n1 a1 g2 t2 have "hist = h2"
                "r = Inr (failure ''Failed to generate medium questions. Please try again.'')"
              by (simp_all add: generate_quiz_def)
            with True d2 t1 n1 a1 t2 h2 show ?thesis
              by (intro medium_failed [of x1 x2 t1 a1]) simp_all
          next
            case n2: False
            show ?thesis
            proof (cases "append_tier t2 ''MEDIUM'' a1")
              case (Inl e)
              with run topic_ok g1 t1 n1 a1 g2 t2 n2 have "hist = h2" "r = Inl e"
                by (simp_all add: generate_quiz_def)
              with t1 n1 a1 t2 n2 Inl h2 show ?thesis
                by (intro medium_raised [of x1 x2 t1 a1 t2 e]) simp_all
            next
              case a2: (Inr a2)
              define c3 where
                "c3 = \<lparr>arg_topic = strip topic0, arg_number = 2, arg_difficulty = ''HARD''\<rparr>"
              define x3 where "x3 = (c3, svc h2 c3)"
              define h3 where "h3 = h2 @ [x3]"
              have g3: "generate_questions_by_difficulty svc jl (strip topic0) 2 ''HARD'' h2
                          = (decode_outcome jl (snd x3), h3)"
                by (simp add: generate_questions_by_difficulty_eq x3_def c3_def h3_def)
              have d3: "arg_difficulty (fst x3) = ''HARD''"
                by (simp add: x3_def c3_def)
              have h3: "h3 = hist0 @ [x1, x2, x3]"
                by (simp add: h3_def h2)
              show ?thesis
              proof (cases "decode_outcome jl (snd x3)")
                case (Inl e)
                with run topic_ok g1 t1 n1 a1 g2 t2 n2 a2 g3 have "hist = h3" "r = Inl e"
                  by (simp_all add: generate_quiz_def)
                with t1 n1 a1 t2 n2 a2 Inl h3 show ?thesis
                  by (intro hard_call_raised [of x1 x2 x3 t1 a1 t2 a2 e]) simp_all
              next
                case t3: (Inr t3)
                show ?thesis
                proof (cases "t3 = JNull")
                  case True
                  with run topic_ok g1 t1 n1 a1 g2 t2 n2 a2 g3 t3 have "hist = h3"
                      "r = Inr (failure ''Failed to generate hard questions. Please try again.'')"
                    by (simp_all add: generate_quiz_def)
                  with True d3 t1 n1 a1 t2 n2 a2 t3 h3 show ?thesis
                    by (intro hard_failed [of x1 x2 x3 t1 a1 t2 a2]) simp_all
                next
                  case n3: False
                  show ?thesis
                  proof (cases "append_tier t3 ''HARD'' a2")
                    case (Inl e)
                    with run topic_ok g1 t1 n1 a1 g2 t2 n2 a2 g3 t3 n3
                    have "hist = h3" "r = Inl e"
                      by (simp_all add: generate_quiz_def)
                    with t1 n1 a1 t2 n2 a2 t3 n3 Inl h3 show ?thesis
                      by (intro hard_raised [of x1 x2 x3 t1 a1 t2 a2 t3 e]) simp_all
                  next
                    case a3: (Inr a3)
                    with run topic_ok g1 t1 n1 a1 g2 t2 n2 a2 g3 t3 n3 have "hist = h3"
                        "r = Inr (if length a3 \<noteq> 10
                            then failure (''Expected 10 questions but got ''
                                           @ str_nat (length a3) @ ''. Please try again.'')
                            else \<lparr>success = True, message = ''Quiz generated successfully'',
                                   questions = a3, topic = Some (strip topic0)\<rparr>)"
                      by (auto simp: generate_quiz_def split: if_splits)
                    with t1 n1 a1 t2 n2 a2 t3 n3 a3 h3 show ?thesis
                      by (intro counted [of x1 x2 x3 t1 a1 t2 a2 t3 a3]) simp_all
                  qed
                qed
              qed
            qed
          qed
        qed
      qed
    qed
  qed
qed

section \<open>Runs on the sample inputs\<close>

lemma strip_Oceans: "strip ''Oceans'' = ''Oceans''"
  by (simp add: strip_def isspace_def)

lemma py_int_samples:
  "py_int ''1'' = Some 1" "py_int ''2'' = Some 2" "py_int ''3'' = Some 3"
  "py_int ''4'' = Some 4" "py_int ''5'' = Some 5" "py_int ''10'' = Some 10"
  by (simp_all add: py_int_def parse_unsigned_def isdigit_def digit_val_def int_space_def)

lemma clean_good:
  "clean_json_response (object_text (map (\<lambda>k. (k, entry_text)) [''1'', ''2'', ''3'', ''4'', ''5'']))
     = object_text (map (\<lambda>k. (k, entry_text)) [''1'', ''2'', ''3'', ''4'', ''5''])"
  "clean_json_response (object_text (map (\<lambda>k. (k, entry_text)) [''1'', ''2'', ''3'', ''4'']))
     = object_text (map (\<lambda>k. (k, entry_text)) [''1'', ''2'', ''3'', ''4''])"
  "clean_json_response (object_text (map (\<lambda>k. (k, entry_text)) [''1'', ''2'', ''3'']))
     = object_text (map (\<lambda>k. (k, entry_text)) [''1'', ''2'', ''3''])"
  "clean_json_response (object_text (map (\<lambda>k. (k, entry_text)) [''1'', ''2'']))
     = object_text (map (\<lambda>k. (k, entry_text)) [''1'', ''2''])"
  "clean_json_response (object_text (map (\<lambda>k. (k, odd_text)) [''1'', ''2'', ''3'', ''4'', ''5'']))
     = object_text (map (\<lambda>k. (k, odd_text)) [''1'', ''2'', ''3'', ''4'', ''5''])"
  "clean_json_response (object_text [(''1'', bare_text)]) = object_text [(''1'', bare_text)]"
  by (rule clean_json_response_object_text, simp add: entry_text_def odd_text_def bare_text_def)+

lemma loads_samples:
  "sample_loads (object_text (map (\<lambda>k. (k, entry_text)) [''1'', ''2'', ''3'', ''4'', ''5'']))
     = Inr (sample_tier [''1'', ''2'', ''3'', ''4'', ''5''])"
  "sample_loads (object_text (map (\<lambda>k. (k, entry_text)) [''1'', ''2'', ''3'', ''4'']))
     = Inr (sample_tier [''1'', ''2'', ''3'', ''4''])"
  "sample_loads (object_text (map (\<lambda>k. (k, entry_text)) [''1'', ''2'', ''3'']))
     = Inr (sample_tier [''1'', ''2'', ''3''])"
  "sample_loads (object_text (map (\<lambda>k. (k, entry_text)) [''1'', ''2'']))
     = Inr (sample_tier [''1'', ''2''])"
  "sample_loads (object_text (map (\<lambda>k. (k, odd_text)) [''1'', ''2'', ''3'', ''4'', ''5'']))
     = Inr (odd_tier [''1'', ''2'', ''3'', ''4'', ''5''])"
  "sample_loads (object_text [(''1'', bare_text)]) = Inr (JObj [(''1'', bare_json)])"
  by (simp_all add: sample_loads_def sample_table_def object_text_def entry_text_def
        odd_text_def bare_text_def)

lemma decode_good:
  "decode_outcome sample_loads (good [''1'', ''2'', ''3'', ''4'', ''5''])
     = Inr (sample_tier [''1'', ''2'', ''3'', ''4'', ''5''])"
  "decode_outcome sample_loads (good [''1'', ''2'', ''3'', ''4''])
     = Inr (sample_tier [''1'', ''2'', ''3'', ''4''])"
  "decode_outcome sample_loads (good [''1'', ''2'', ''3''])
     = Inr (sample_tier [''1'', ''2'', ''3''])"
  "decode_outcome sample_loads (good [''1'', ''2''])
     = Inr (sample_tier [''1'', ''2''])"
  by (simp_all only: decode_outcome_def good_def sum.case clean_good loads_samples)

lemma decode_odd:
  "decode_outcome sample_loads (odd [''1'', ''2'', ''3'', ''4'', ''5''])
     = Inr (odd_tier [''1'', ''2'', ''3'', ''4'', ''5''])"
  by (simp only: decode_outcome_def odd_def sum.case clean_good loads_samples)

lemma decode_bare: "decode_outcome sample_loads bare = Inr (JObj [(''1'', bare_json)])"
  by (simp only: decode_outcome_def bare_def sum.case clean_good loads_samples)

lemma decode_error:
  "e \<noteq> JSONDecodeError \<Longrightarrow> decode_outcome json_loads (Inl e) = Inr JNull"
  "decode_outcome json_loads (Inl JSONDecodeError) = Inl UnboundLocalError"
  by (simp_all add: decode_outcome_def)

lemma sample_tier_not_None [simp]: "sample_tier ks \<noteq> JNull" "odd_tier ks \<noteq> JNull"
  by (simp_all add: sample_tier_def odd_tier_def)

lemma tier_loop_entry:
  "map_of kvs key = Some entry_json \<Longrightarrow>
   tier_loop (JObj kvs) label (key # keys) all_questions =
   tier_loop (JObj kvs) label keys (all_questions @ [sample_question (length all_questions + 1) label])"
  by (simp add: entry_json_def sample_question_def)

lemma tier_loop_odd:
  "map_of kvs key = Some odd_json \<Longrightarrow>
   tier_loop (JObj kvs) label (key # keys) all_questions =
   tier_loop (JObj kvs) label keys (all_questions @ [odd_question (length all_questions + 1) label])"
  by (simp add: odd_json_def odd_question_def)

lemma append_tier_good:
  "append_tier (sample_tier [''1'', ''2'', ''3'', ''4'', ''5'']) label all_questions
     = Inr (all_questions @ map (\<lambda>i. sample_question (length all_questions + i) label) [1, 2, 3, 4, 5])"
  "append_tier (sample_tier [''1'', ''2'', ''3'', ''4'']) label all_questions
     = Inr (all_questions @ map (\<lambda>i. sample_question (length all_questions + i) label) [1, 2, 3, 4])"
  "append_tier (sample_tier [''1'', ''2'', ''3'']) label all_questions
     = Inr (all_questions @ map (\<lambda>i. sample_question (length all_questions + i) label) [1, 2, 3])"
  "append_tier (sample_tier [''1'', ''2'']) label all_questions
     = Inr (all_questions @ map (\<lambda>i. sample_question (length all_questions + i) label) [1, 2])"
  by (simp_all add: sample_tier_def append_tier_def sorted_by_int_def py_int_samples
        tier_loop_entry eval_nat_numeral del: tier_loop.simps(2))

lemma append_tier_odd:
  "append_tier (odd_tier [''1'', ''2'', ''3'', ''4'', ''5'']) label all_questions
     = Inr (all_questions @ map (\<lambda>i. odd_question (length all_questions + i) label) [1, 2, 3, 4, 5])"
  by (simp add: odd_tier_def append_tier_def sorted_by_int_def py_int_samples
        tier_loop_odd eval_nat_numeral del: tier_loop.simps(2))

lemma run_medium_down:
  "generate_quiz (tiered (good [''1'', ''2'', ''3'', ''4'', ''5'']) (Inl (ServiceError ''timeout'')) (good [''1'', ''2'']))
     sample_loads ''Oceans'' []
   = (Inr (failure ''Failed to generate medium questions. Please try again.''),
      [(\<lparr>arg_topic = ''Oceans'', arg_number = 5, arg_difficulty = ''EASY''\<rparr>, good [''1'', ''2'', ''3'', ''4'', ''5'']),
       (\<lparr>arg_topic = ''Oceans'', arg_number = 3, arg_difficulty = ''MEDIUM''\<rparr>, Inl (ServiceError ''timeout''))])"
  by (simp add: generate_quiz_def strip_Oceans generate_questions_by_difficulty_eq tiered_def
        decode_good decode_error append_tier_good Let_def)


text \<open>
  The same run when the medium call raises \<^verbatim>\<open>json.JSONDecodeError\<close>: the
  \<^verbatim>\<open>UnboundLocalError\<close> of \<^verbatim>\<open>generate_questions_by_difficulty\<close> leaves \<^verbatim>\<open>generate_quiz\<close>
  too.
\<close>

lemma run_medium_decode_error:
  "generate_quiz (tiered (good [''1'', ''2'', ''3'', ''4'', ''5'']) (Inl JSONDecodeError) (good [''1'', ''2'']))
     sample_loads ''Oceans'' []
   = (Inl UnboundLocalError,
      [(\<lparr>arg_topic = ''Oceans'', arg_number = 5, arg_difficulty = ''EASY''\<rparr>, good [''1'', ''2'', ''3'', ''4'', ''5'']),
       (\<lparr>arg_topic = ''Oceans'', arg_number = 3, arg_difficulty = ''MEDIUM''\<rparr>, Inl JSONDecodeError)])"
  by (simp add: generate_quiz_def strip_Oceans generate_questions_by_difficulty_eq tiered_def
        decode_good decode_error append_tier_good Let_def)

section \<open>A failing tier aborts the composition\<close>

text \<open>
  Claim C4. Take any run of \<^verbatim>\<open>generate_quiz\<close>, on any topic, and any call of the run
  (an exchange recorded after \<open>hist0\<close>) whose generation or decoding failed, that is,
  for which \<^verbatim>\<open>generate_questions_by_difficulty\<close> returned \<^verbatim>\<open>None\<close>. Then the run
  returns the failure dict whose message names the tier of that call and whose question
  list is empty, and that call is the last one of the run: the questions of the tiers
  before it are dropped and no later tier is asked for. (A call out of which
  \<^verbatim>\<open>UnboundLocalError\<close> comes returns nothing; it is not such a call.)
\<close>

theorem tier_failure_aborts:
  assumes "generate_quiz svc json_loads topic0 hist0 = (r, hist)"
    and "length hist0 \<le> i" and "i < length hist"
    and "decode_outcome json_loads (snd (hist ! i)) = Inr JNull"
  shows "r = Inr \<lparr>success = False,
                  message = tier_failure_message (arg_difficulty (fst (hist ! i))),
                  questions = [], topic = None\<rparr>
         \<and> Suc i = length hist"
  using assms(1)
proof (cases rule: generate_quiz_run)
  case blank
  with assms show ?thesis by simp
next
  case (easy_call_raised x1 e)
  with assms show ?thesis
    by (auto simp: nth_append)
next
  case (easy_failed x1)
  with assms show ?thesis
    by (auto simp: nth_append failure_def tier_failure_message_def)
next
  case (easy_raised x1 t1 e)
  with assms show ?thesis
    by (auto simp: nth_append)
next
  case (medium_call_raised x1 x2 t1 a1 e)
  with assms have "i = length hist0 \<or> i = Suc (length hist0)"
    by auto
  with medium_call_raised assms show ?thesis
    by (auto simp: nth_append)
next
  case (medium_failed x1 x2 t1 a1)
  with assms have "i = length hist0 \<or> i = Suc (length hist0)"
    by auto
  with medium_failed assms show ?thesis
    by (auto simp: nth_append failure_def tier_failure_message_def)
next
  case (medium_raised x1 x2 t1 t2 a1 e)
  with assms have "i = length hist0 \<or> i = Suc (length hist0)"
    by auto
  with medium_raised assms show ?thesis
    by (auto simp: nth_append)
next
  case (hard_call_raised x1 x2 x3 t1 t2 a1 a2 e)
  with assms have "i = length hist0 \<or> i = Suc (length hist0) \<or> i = Suc (Suc (length hist0))"
    by auto
  with hard_call_raised assms show ?thesis
    by (auto simp: nth_append)
next
  case (hard_failed x1 x2 x3 t1 t2 a1 a2)
  with assms have "i = length hist0 \<or> i = Suc (length hist0) \<or> i = Suc (Suc (length hist0))"
    by auto
  with hard_failed assms show ?thesis
    by (auto simp: nth_append failure_def tier_failure_message_def)
next
  case (hard_raised x1 x2 x3 t1 t2 t3 a1 a2 e)
  with assms have "i = length hist0 \<or> i = Suc (length hist0) \<or> i = Suc (Suc (length hist0))"
    by auto
  with hard_raised assms show ?thesis
    by (auto simp: nth_append)
next
  case (counted x1 x2 x3 t1 t2 t3 a1 a2 a3)
  with assms have "i = length hist0 \<or> i = Suc (length hist0) \<or> i = Suc (Suc (length hist0))"
    by auto
  with counted assms show ?thesis
    by (auto simp: nth_append)
qed

text \<open>
  The medium tier raises a transport error after the easy tier has produced its five
  questions: the call returns \<^verbatim>\<open>None\<close>, and the result names the medium tier and holds
  no question.
\<close>

theorem tier_failure_aborts_witness:
  "generate_quiz
     (tiered (good [''1'', ''2'', ''3'', ''4'', ''5'']) (Inl (ServiceError ''timeout''))
        (good [''1'', ''2'']))
     sample_loads ''Oceans'' []
   = (Inr \<lparr>success = False,
            message = ''Failed to generate medium questions. Please try again.'',
            questions = [], topic = None\<rparr>,
      [(\<lparr>arg_topic = ''Oceans'', arg_number = 5, arg_difficulty = ''EASY''\<rparr>,
        good [''1'', ''2'', ''3'', ''4'', ''5'']),
       (\<lparr>arg_topic = ''Oceans'', arg_number = 3, arg_difficulty = ''MEDIUM''\<rparr>,
        Inl (ServiceError ''timeout''))])
   \<and> decode_outcome sample_loads (Inl (ServiceError ''timeout'')) = Inr JNull
   \<and> decode_outcome sample_loads (good [''1'', ''2'', ''3'', ''4'', ''5''])
       = Inr (sample_tier [''1'', ''2'', ''3'', ''4'', ''5''])
   \<and> append_tier (sample_tier [''1'', ''2'', ''3'', ''4'', ''5'']) ''EASY'' []
       = Inr (map (\<lambda>i. sample_question i ''EASY'') [1, 2, 3, 4, 5])"
  using run_medium_down
    tier_failure_aborts [OF run_medium_down, of 1]
  by (simp add: decode_error tier_failure_message_def failure_def decode_good append_tier_good)

section \<open>The order of a tier's questions\<close>

text \<open>
  Claim C7. When all keys of a tier's mapping are integers for \<^verbatim>\<open>int\<close>, the questions
  that \<^verbatim>\<open>generate_quiz\<close> appends for the tier follow the keys in ascending numeric
  order: \<open>ks\<close> is a rearrangement of the keys that is sorted by their integer values, and
  the \<open>i\<close>-th appended question is built from the entry under \<open>ks ! i\<close> and gets the
  next sequence number, one more than the number of questions before it.
\<close>

theorem tier_appended_in_numeric_order:
  assumes "list_all (\<lambda>k. py_int k \<noteq> None) (map fst kvs)"
    and "append_tier (JObj kvs) label all_questions = Inr all'"
  shows "\<exists>ks new. all' = all_questions @ new
           \<and> mset ks = mset (map fst kvs)
           \<and> sorted (map (\<lambda>k. the (py_int k)) ks)
           \<and> length new = length ks
           \<and> (\<forall>i<length ks.
                 built_from (JObj kvs) (ks ! i) label (length all_questions + i + 1) (new ! i))"
proof -
  let ?ks = "sort_key (\<lambda>k. the (py_int k)) (map fst kvs)"
  from assms have "tier_loop (JObj kvs) label ?ks all_questions = Inr all'"
    by (simp add: append_tier_def sorted_by_int_def)
  from tier_loop_Inr [OF this] obtain new where
    "all' = all_questions @ new" "length new = length ?ks"
    "\<forall>i<length ?ks. built_from (JObj kvs) (?ks ! i) label (length all_questions + i + 1) (new ! i)"
    by blast
  moreover have "mset ?ks = mset (map fst kvs)"
    by simp
  moreover have "sorted (map (\<lambda>k. the (py_int k)) ?ks)"
    by (rule sorted_sort_key)
  ultimately show ?thesis
    by blast
qed

text \<open>The key 10 comes after the key 2, although it is first in the mapping.\<close>

theorem tier_appended_in_numeric_order_witness:
  "list_all (\<lambda>k. py_int k \<noteq> None) (map fst ten_two)
   \<and> append_tier (JObj ten_two) ''HARD'' []
       = Inr [\<lparr>question_number = 1, question = JStr ''second'', options = JObj [],
                correct = JStr ''b'', difficulty = ''HARD''\<rparr>,
              \<lparr>question_number = 2, question = JStr ''tenth'', options = JObj [],
                correct = JStr ''a'', difficulty = ''HARD''\<rparr>]
   \<and> (\<exists>ks new.
         [\<lparr>question_number = 1, question = JStr ''second'', options = JObj [],
            correct = JStr ''b'', difficulty = ''HARD''\<rparr>,
          \<lparr>question_number = 2, question = JStr ''tenth'', options = JObj [],
            correct = JStr ''a'', difficulty = ''HARD''\<rparr>] = [] @ new
         \<and> mset ks = mset (map fst ten_two)
         \<and> sorted (map (\<lambda>k. the (py_int k)) ks)
         \<and> length new = length ks
         \<and> (\<forall>i<length ks. built_from (JObj ten_two) (ks ! i) ''HARD'' (length ([] :: question_obj list) + i + 1) (new ! i)))"
proof -
  have keys: "list_all (\<lambda>k. py_int k \<noteq> None) (map fst ten_two)"
    by (simp add: ten_two_def py_int_samples)
  have run: "append_tier (JObj ten_two) ''HARD'' []
       = Inr [\<lparr>question_number = 1, question = JStr ''second'', options = JObj [],
                correct = JStr ''b'', difficulty = ''HARD''\<rparr>,
              \<lparr>question_number = 2, question = JStr ''tenth'', options = JObj [],
                correct = JStr ''a'', difficulty = ''HARD''\<rparr>]"
    by (simp add: ten_two_def append_tier_def sorted_by_int_def py_int_samples)
  from keys run tier_appended_in_numeric_order [OF keys run] show ?thesis
    by blast
qed

section \<open>Entries without the expected fields\<close>

text \<open>No check of the entries stands between decoding and the loop over the keys.\<close>

lemma tier_loop_Inl:
  "tier_loop t label ks all_questions = Inl e \<Longrightarrow>
   \<exists>k\<in>set ks. py_getitem t k = Inl e \<or>
     (\<exists>qd. py_getitem t k = Inr qd \<and>
        (py_getitem qd ''question'' = Inl e \<or> py_getitem qd ''options'' = Inl e \<or>
         py_getitem qd ''correct'' = Inl e))"
proof (induction ks arbitrary: all_questions)
  case Nil
  then show ?case by simp
next
  case (Cons key keys)
  show ?case
  proof (cases "py_getitem t key")
    case (Inl x)
    with Cons.prems show ?thesis by simp
  next
    case qd: (Inr qd)
    show ?thesis
    proof (cases "\<exists>x. py_getitem qd ''question'' = Inl x \<or> py_getitem qd ''options'' = Inl x
                     \<or> py_getitem qd ''correct'' = Inl x")
      case True
      with Cons.prems qd have
        "py_getitem qd ''question'' = Inl e \<or> py_getitem qd ''options'' = Inl e
           \<or> py_getitem qd ''correct'' = Inl e"
        by (auto split: sum.splits)
      with qd show ?thesis by auto
    next
      case False
      with Cons.prems qd obtain al where "tier_loop t label keys al = Inl e"
        by (auto split: sum.splits)
      from Cons.IH [OF this] show ?thesis by auto
    qed
  qed
qed

lemma py_getitem_key:
  "distinct (map fst kvs) \<Longrightarrow> (k, v) \<in> set kvs \<Longrightarrow> py_getitem (JObj kvs) k = Inr v"
  by simp

lemma py_getitem_present:
  "py_getitem (JObj flds) f = Inr x \<Longrightarrow> f \<in> set (map fst flds)"
  by (auto split: option.splits dest: map_of_SomeD intro: rev_image_eqI)

lemma append_tier_lacks_field:
  assumes "distinct (map fst kvs)" and "(k, v) \<in> set kvs" and "lacks_field v"
  shows "\<exists>e. append_tier (JObj kvs) label all_questions = Inl e"
proof (cases "append_tier (JObj kvs) label all_questions")
  case (Inl e)
  then show ?thesis by blast
next
  case (Inr all')
  let ?ks = "sort_key (\<lambda>k. the (py_int k)) (map fst kvs)"
  from Inr have loop: "tier_loop (JObj kvs) label ?ks all_questions = Inr all'"
    by (auto simp: append_tier_def sorted_by_int_def split: if_splits)
  from assms(2) have "k \<in> set ?ks"
    by (auto intro: rev_image_eqI)
  then obtain i where i: "i < length ?ks" "?ks ! i = k"
    by (metis in_set_conv_nth)
  from tier_loop_Inr [OF loop] i obtain q where
    "built_from (JObj kvs) k label (length all_questions + i + 1) q"
    by auto
  with py_getitem_key [OF assms(1,2)] have
    "py_getitem v ''question'' = Inr (question q)"
    "py_getitem v ''options'' = Inr (options q)"
    "py_getitem v ''correct'' = Inr (correct q)"
    by (simp_all add: built_from_def)
  moreover from assms(3) obtain flds where "v = JObj flds"
    by (auto simp: lacks_field_def split: json.splits)
  ultimately have "set [''question'', ''options'', ''correct''] \<subseteq> set (map fst flds)"
    using py_getitem_present by auto
  with assms(3) \<open>v = JObj flds\<close> show ?thesis
    by (simp add: lacks_field_def)
qed

lemma append_tier_KeyError:
  assumes "list_all (\<lambda>k. py_int k \<noteq> None) (map fst kvs)"
    and "list_all is_dict (map snd kvs)"
    and "append_tier (JObj kvs) label all_questions = Inl e"
  shows "e \<in> {KeyError (JStr ''question''), KeyError (JStr ''options''),
              KeyError (JStr ''correct'')}"
proof -
  let ?ks = "sort_key (\<lambda>k. the (py_int k)) (map fst kvs)"
  from assms(1,3) have "tier_loop (JObj kvs) label ?ks all_questions = Inl e"
    by (simp add: append_tier_def sorted_by_int_def)
  from tier_loop_Inl [OF this] obtain k where k: "k \<in> set (map fst kvs)"
    and e: "py_getitem (JObj kvs) k = Inl e \<or>
     (\<exists>qd. py_getitem (JObj kvs) k = Inr qd \<and>
        (py_getitem qd ''question'' = Inl e \<or> py_getitem qd ''options'' = Inl e \<or>
         py_getitem qd ''correct'' = Inl e))"
    by auto
  from k obtain v where v: "map_of kvs k = Some v"
    by (cases "map_of kvs k") (auto simp: map_of_eq_None_iff)
  then have "(k, v) \<in> set kvs"
    by (rule map_of_SomeD)
  with assms(2) obtain flds where "v = JObj flds"
    by (cases v) (auto simp: list_all_iff is_dict_def)
  with e v show ?thesis
    by (auto split: option.splits)
qed


lemma run_bare:
  "generate_quiz (tiered bare (good [''1'', ''2'', ''3'']) (good [''1'', ''2'']))
     sample_loads ''Oceans'' []
   = (Inl (KeyError (JStr ''question'')),
      [(\<lparr>arg_topic = ''Oceans'', arg_number = 5, arg_difficulty = ''EASY''\<rparr>, bare)])"
  by (simp add: generate_quiz_def strip_Oceans generate_questions_by_difficulty_eq tiered_def
        decode_bare Let_def append_tier_def sorted_by_int_def py_int_samples bare_json_def)

text \<open>
  Claim C2 does not hold: the response below is JSON whose only entry has no
  \<^verbatim>\<open>question\<close> field, and \<^verbatim>\<open>generate_quiz\<close> ends with a \<^verbatim>\<open>KeyError\<close> instead of
  returning a failure dict.
\<close>

theorem missing_field_counterexample:
  "fst (generate_quiz (tiered bare (good [''1'', ''2'', ''3'']) (good [''1'', ''2'']))
          sample_loads ''Oceans'' [])
   = Inl (KeyError (JStr ''question''))
   \<and> sample_loads (clean_json_response (object_text [(''1'', bare_text)]))
       = Inr (JObj [(''1'', bare_json)])
   \<and> lacks_field bare_json"
  using run_bare by (simp add: clean_good loads_samples lacks_field_def bare_json_def)

text \<open>
  Claim C2 as amended. Take any run of \<^verbatim>\<open>generate_quiz\<close> and any response of the run
  whose cleaned text decodes to a JSON object in which some entry is an object without
  a \<^verbatim>\<open>question\<close>, \<^verbatim>\<open>options\<close> or \<^verbatim>\<open>correct\<close> field. Then the run does not report
  a failure dict: an exception leaves \<^verbatim>\<open>generate_quiz\<close>. When all keys of the object are
  integers and all its entries are objects, the exception is the \<^verbatim>\<open>KeyError\<close> for one
  of the three fields.
\<close>

theorem missing_field_raises:
  assumes run: "generate_quiz svc json_loads topic0 hist0 = (r, hist)"
    and idx: "length hist0 \<le> i" "i < length hist"
    and raw: "snd (hist ! i) = Inr raw_response"
    and parsed: "json_loads (clean_json_response raw_response) = Inr (JObj kvs)"
    and keys: "distinct (map fst kvs)"
    and entry: "(k, v) \<in> set kvs" "lacks_field v"
  shows "(\<exists>e. r = Inl e)
       \<and> (list_all (\<lambda>k. py_int k \<noteq> None) (map fst kvs) \<and> list_all is_dict (map snd kvs) \<longrightarrow>
            r \<in> {Inl (KeyError (JStr ''question'')), Inl (KeyError (JStr ''options'')),
                  Inl (KeyError (JStr ''correct''))})"
proof -
  have dec: "decode_outcome json_loads (snd (hist ! i)) = Inr (JObj kvs)"
    using raw parsed by (simp add: decode_outcome_def)
  have bad: "append_tier (JObj kvs) label al \<noteq> Inr a" for label al a
    using append_tier_lacks_field [OF keys entry, of label al] by auto
  have ke: "list_all (\<lambda>k. py_int k \<noteq> None) (map fst kvs) \<and> list_all is_dict (map snd kvs) \<longrightarrow>
              Inl e \<in> {Inl (KeyError (JStr ''question'')), Inl (KeyError (JStr ''options'')),
                        Inl (KeyError (JStr ''correct'')) :: exn + quiz_result}"
    if "append_tier (JObj kvs) label al = Inl e" for label al e
    using append_tier_KeyError [OF _ _ that] by auto
  from run show ?thesis
  proof (cases rule: generate_quiz_run)
    case blank
    with idx show ?thesis by simp
  next
    case (easy_call_raised x1 e)
    with idx dec show ?thesis by (auto simp: nth_append)
  next
    case (easy_failed x1)
    with idx dec show ?thesis by (auto simp: nth_append)
  next
    case (easy_raised x1 t1 e)
    with idx dec have "t1 = JObj kvs"
      by (auto simp: nth_append)
    with easy_raised ke show ?thesis by auto
  next
    case (medium_call_raised x1 x2 t1 a1 e)
    with idx have "i = length hist0 \<or> i = Suc (length hist0)" by auto
    with medium_call_raised dec bad show ?thesis by (auto simp: nth_append)
  next
    case (medium_failed x1 x2 t1 a1)
    with idx have "i = length hist0 \<or> i = Suc (length hist0)" by auto
    with medium_failed dec bad show ?thesis by (auto simp: nth_append)
  next
    case (medium_raised x1 x2 t1 t2 a1 e)
    with idx have "i = length hist0 \<or> i = Suc (length hist0)" by auto
    with medium_raised dec bad have "t2 = JObj kvs"
      by (auto simp: nth_append)
    with medium_raised ke show ?thesis by auto
  next
    case (hard_call_raised x1 x2 x3 t1 t2 a1 a2 e)
    with idx have "i = length hist0 \<or> i = Suc (length hist0) \<or> i = Suc (Suc (length hist0))"
      by auto
    with hard_call_raised dec bad show ?thesis by (auto simp: nth_append)
  next
    case (hard_failed x1 x2 x3 t1 t2 a1 a2)
    with idx have "i = length hist0 \<or> i = Suc (length hist0) \<or> i = Suc (Suc (length hist0))"
      by auto
    with hard_failed dec bad show ?thesis by (auto simp: nth_append)
  next
    case (hard_raised x1 x2 x3 t1 t2 t3 a1 a2 e)
    with idx have "i = length hist0 \<or> i = Suc (length hist0) \<or> i = Suc (Suc (length hist0))"
      by auto
    with hard_raised dec bad have "t3 = JObj kvs"
      by (auto simp: nth_append)
    with hard_raised ke show ?thesis by auto
  next
    case (counted x1 x2 x3 t1 t2 t3 a1 a2 a3)
    with idx have "i = length hist0 \<or> i = Suc (length hist0) \<or> i = Suc (Suc (length hist0))"
      by auto
    with counted dec bad show ?thesis by (auto simp: nth_append)
  qed
qed

theorem missing_field_raises_witness:
  "(\<exists>e. fst (generate_quiz (tiered bare (good [''1'', ''2'', ''3'']) (good [''1'', ''2'']))
                sample_loads ''Oceans'' []) = Inl e)
   \<and> sample_loads (clean_json_response (object_text [(''1'', bare_text)]))
       = Inr (JObj [(''1'', bare_json)])
   \<and> distinct (map fst [(''1'', bare_json)])
   \<and> lacks_field bare_json
   \<and> list_all (\<lambda>k. py_int k \<noteq> None) (map fst [(''1'', bare_json)])
   \<and> list_all is_dict (map snd [(''1'', bare_json)])"
proof -
  have lacks: "lacks_field bare_json"
    by (simp add: lacks_field_def bare_json_def)
  have parsed: "sample_loads (clean_json_response (object_text [(''1'', bare_text)]))
                  = Inr (JObj [(''1'', bare_json)])"
    by (simp add: clean_good loads_samples)
  have raw: "snd ([(\<lparr>arg_topic = ''Oceans'', arg_number = 5, arg_difficulty = ''EASY''\<rparr>, bare)] ! 0)
               = Inr (object_text [(''1'', bare_text)])"
    by (simp add: bare_def)
  have dist: "distinct (map fst [(''1'', bare_json)])"
    by simp
  have mem: "(''1'', bare_json) \<in> set [(''1'', bare_json)]"
    by simp
  have "\<exists>e. (Inl (KeyError (JStr ''question'')) :: exn + quiz_result) = Inl e"
    using missing_field_raises [OF run_bare _ _ raw parsed dist mem lacks] by simp
  with run_bare lacks parsed show ?thesis
    by (simp add: py_int_samples is_dict_def bare_json_def)
qed

section \<open>What a composed quiz holds\<close>

lemma built_from_number:
  "built_from t k label n q \<Longrightarrow> question_number q = n \<and> difficulty q = label"
  by (auto simp: built_from_def split: sum.splits)

lemma append_tier_Inr:
  assumes "append_tier t label al = Inr al'"
  shows "\<exists>kvs new. t = JObj kvs \<and> al' = al @ new
           \<and> (\<forall>i<length new. question_number (new ! i) = length al + i + 1)
           \<and> (\<forall>q\<in>set new. difficulty q = label \<and>
                 (\<exists>k v. (k, v) \<in> set kvs \<and> py_getitem v ''options'' = Inr (options q)
                          \<and> py_getitem v ''correct'' = Inr (correct q)))"
proof -
  from assms obtain kvs where t: "t = JObj kvs"
    by (cases t) (auto simp: append_tier_def)
  let ?ks = "sort_key (\<lambda>k. the (py_int k)) (map fst kvs)"
  from assms t have "tier_loop (JObj kvs) label ?ks al = Inr al'"
    by (auto simp: append_tier_def sorted_by_int_def split: if_splits)
  from tier_loop_Inr [OF this] obtain new where new: "al' = al @ new" "length new = length ?ks"
    and built: "\<forall>i<length ?ks. built_from (JObj kvs) (?ks ! i) label (length al + i + 1) (new ! i)"
    by blast
  have "difficulty q = label \<and>
          (\<exists>k v. (k, v) \<in> set kvs \<and> py_getitem v ''options'' = Inr (options q)
                   \<and> py_getitem v ''correct'' = Inr (correct q))"
    if "q \<in> set new" for q
  proof -
    from that new(2) obtain i where i: "i < length ?ks" "new ! i = q"
      by (metis in_set_conv_nth)
    with built have b: "built_from (JObj kvs) (?ks ! i) label (length al + i + 1) q"
      by auto
    then obtain v where "map_of kvs (?ks ! i) = Some v"
      "py_getitem v ''options'' = Inr (options q)" "py_getitem v ''correct'' = Inr (correct q)"
      "difficulty q = label"
      by (auto simp: built_from_def split: option.splits sum.splits)
    then show ?thesis
      by (auto dest: map_of_SomeD)
  qed
  moreover have "\<forall>i<length new. question_number (new ! i) = length al + i + 1"
    using built new(2) by (auto dest: built_from_number)
  ultimately show ?thesis
    using t new(1) by blast
qed

text \<open>
  What \<^verbatim>\<open>generate_quiz\<close> does guarantee for a quiz it returns: ten questions, numbered
  from 1 to 10, the difficulties in three blocks (easy, medium, hard) whose sizes are
  the numbers of entries the three responses held.
\<close>

lemma generate_quiz_success_shape:
  assumes "generate_quiz svc json_loads topic0 hist0 = (Inr r, hist)" and "success r"
  shows "length (questions r) = 10 \<and> map question_number (questions r) = [1..<11]
       \<and> (\<exists>e m h. e + m + h = 10 \<and>
             map difficulty (questions r)
               = replicate e ''EASY'' @ replicate m ''MEDIUM'' @ replicate h ''HARD'')"
  using assms(1)
proof (cases rule: generate_quiz_run)
  case (counted x1 x2 x3 t1 t2 t3 a1 a2 a3)
  with assms(2) have len: "length a3 = 10" and r: "questions r = a3"
    by (auto simp: failure_def split: if_splits)
  from append_tier_Inr [OF counted(4)] obtain n1 where n1: "a1 = n1"
    "\<forall>i<length n1. question_number (n1 ! i) = i + 1" "\<forall>q\<in>set n1. difficulty q = ''EASY''"
    by auto
  from append_tier_Inr [OF counted(7)] obtain n2 where n2: "a2 = a1 @ n2"
    "\<forall>i<length n2. question_number (n2 ! i) = length a1 + i + 1"
    "\<forall>q\<in>set n2. difficulty q = ''MEDIUM''"
    by auto
  from append_tier_Inr [OF counted(10)] obtain n3 where n3: "a3 = a2 @ n3"
    "\<forall>i<length n3. question_number (n3 ! i) = length a2 + i + 1"
    "\<forall>q\<in>set n3. difficulty q = ''HARD''"
    by auto
  have num: "map question_number a3 = [1..<11]"
  proof (rule nth_equalityI)
    show "length (map question_number a3) = length [1..<11]"
      using len by simp
  next
    fix i assume "i < length (map question_number a3)"
    then have i: "i < 10" using len by simp
    have "question_number (a3 ! i) = i + 1"
      using n1 n2 n3 i len by (auto simp: nth_append)
    with i len show "map question_number a3 ! i = [1..<11] ! i"
      by (simp add: nth_upt del: upt_Suc)
  qed
  have "map difficulty a3
          = replicate (length n1) ''EASY'' @ replicate (length n2) ''MEDIUM''
              @ replicate (length n3) ''HARD''"
    using n1 n2 n3 by (simp add: map_replicate_const [symmetric] cong: map_cong)
  moreover have "length n1 + length n2 + length n3 = 10"
    using len n1 n2 n3 by simp
  ultimately show ?thesis
    using len r num by blast
qed (use assms(2) in \<open>auto simp: failure_def\<close>)


text \<open>
  Claim C1: a returned quiz should hold 5 easy, then 3 medium, then 2 hard questions.
  The only count that \<^verbatim>\<open>generate_quiz\<close> checks is the total. Here the service answers the
  request for 5 easy questions with 4 and the request for 3 medium questions with 4:
  the quiz is returned as a success, and its fifth question is a medium one.
\<close>

theorem generate_quiz_four_four_two:
  "fst (generate_quiz
          (tiered (good [''1'', ''2'', ''3'', ''4'']) (good [''1'', ''2'', ''3'', ''4''])
             (good [''1'', ''2'']))
          sample_loads ''Oceans'' [])
   = Inr \<lparr>success = True, message = ''Quiz generated successfully'',
           questions =
             [sample_question 1 ''EASY'', sample_question 2 ''EASY'',
              sample_question 3 ''EASY'', sample_question 4 ''EASY'',
              sample_question 5 ''MEDIUM'', sample_question 6 ''MEDIUM'',
              sample_question 7 ''MEDIUM'', sample_question 8 ''MEDIUM'',
              sample_question 9 ''HARD'', sample_question 10 ''HARD''],
           topic = Some ''Oceans''\<rparr>"
  by (simp add: generate_quiz_def strip_Oceans generate_questions_by_difficulty_eq tiered_def
        decode_good append_tier_good Let_def eval_nat_numeral)

lemma run_odd:
  "generate_quiz
     (tiered (odd [''1'', ''2'', ''3'', ''4'', ''5'']) (good [''1'', ''2'', ''3''])
        (good [''1'', ''2'']))
     sample_loads ''Oceans'' []
   = (Inr \<lparr>success = True, message = ''Quiz generated successfully'',
           questions =
             [odd_question 1 ''EASY'', odd_question 2 ''EASY'', odd_question 3 ''EASY'',
              odd_question 4 ''EASY'', odd_question 5 ''EASY'',
              sample_question 6 ''MEDIUM'', sample_question 7 ''MEDIUM'',
              sample_question 8 ''MEDIUM'',
              sample_question 9 ''HARD'', sample_question 10 ''HARD''],
           topic = Some ''Oceans''\<rparr>,
      [(\<lparr>arg_topic = ''Oceans'', arg_number = 5, arg_difficulty = ''EASY''\<rparr>,
        odd [''1'', ''2'', ''3'', ''4'', ''5'']),
       (\<lparr>arg_topic = ''Oceans'', arg_number = 3, arg_difficulty = ''MEDIUM''\<rparr>,
        good [''1'', ''2'', ''3'']),
       (\<lparr>arg_topic = ''Oceans'', arg_number = 2, arg_difficulty = ''HARD''\<rparr>,
        good [''1'', ''2''])])"
  by (simp add: generate_quiz_def strip_Oceans generate_questions_by_difficulty_eq tiered_def
        decode_good decode_odd append_tier_good append_tier_odd Let_def eval_nat_numeral)

lemma run_good:
  "generate_quiz
     (tiered (good [''1'', ''2'', ''3'', ''4'', ''5'']) (good [''1'', ''2'', ''3''])
        (good [''1'', ''2'']))
     sample_loads ''Oceans'' []
   = (Inr \<lparr>success = True, message = ''Quiz generated successfully'',
           questions =
             [sample_question 1 ''EASY'', sample_question 2 ''EASY'',
              sample_question 3 ''EASY'', sample_question 4 ''EASY'',
              sample_question 5 ''EASY'',
              sample_question 6 ''MEDIUM'', sample_question 7 ''MEDIUM'',
              sample_question 8 ''MEDIUM'',
              sample_question 9 ''HARD'', sample_question 10 ''HARD''],
           topic = Some ''Oceans''\<rparr>,
      [(\<lparr>arg_topic = ''Oceans'', arg_number = 5, arg_difficulty = ''EASY''\<rparr>,
        good [''1'', ''2'', ''3'', ''4'', ''5'']),
       (\<lparr>arg_topic = ''Oceans'', arg_number = 3, arg_difficulty = ''MEDIUM''\<rparr>,
        good [''1'', ''2'', ''3'']),
       (\<lparr>arg_topic = ''Oceans'', arg_number = 2, arg_difficulty = ''HARD''\<rparr>,
        good [''1'', ''2''])])"
  by (simp add: generate_quiz_def strip_Oceans generate_questions_by_difficulty_eq tiered_def
        decode_good append_tier_good Let_def eval_nat_numeral)

text \<open>
  Claim C3 does not hold: the service returns well-formed JSON whose easy entries have
  a single option a and the correct label z, and the quiz is composed all the same.
\<close>

theorem labels_counterexample:
  "fst (generate_quiz
          (tiered (odd [''1'', ''2'', ''3'', ''4'', ''5'']) (good [''1'', ''2'', ''3''])
             (good [''1'', ''2'']))
          sample_loads ''Oceans'' [])
   = Inr \<lparr>success = True, message = ''Quiz generated successfully'',
           questions =
             [odd_question 1 ''EASY'', odd_question 2 ''EASY'', odd_question 3 ''EASY'',
              odd_question 4 ''EASY'', odd_question 5 ''EASY'',
              sample_question 6 ''MEDIUM'', sample_question 7 ''MEDIUM'',
              sample_question 8 ''MEDIUM'',
              sample_question 9 ''HARD'', sample_question 10 ''HARD''],
           topic = Some ''Oceans''\<rparr>
   \<and> \<not> question_ok (odd_question 1 ''EASY'')
   \<and> options (odd_question 1 ''EASY'') = JObj [(''a'', JStr ''w'')]
   \<and> correct (odd_question 1 ''EASY'') = JStr ''z''"
  using run_odd by (simp add: question_ok_def labels_ok_def odd_question_def)

text \<open>
  Claim C3 as amended. The options and the correct label of every question of a
  returned quiz are those of an entry that the service sent in this run, copied as
  they are. So the label invariant (exactly the four options a, b, c, d, and a correct
  label among them) holds for every question of the quiz whenever it holds for every
  entry of the decoded responses of the run.
\<close>

theorem labels_copied_from_entries:
  assumes run: "generate_quiz svc json_loads topic0 hist0 = (Inr r, hist)" and ok: "success r"
  shows "(\<forall>q\<in>set (questions r). \<exists>i kvs k v.
            length hist0 \<le> i \<and> i < length hist \<and>
            decode_outcome json_loads (snd (hist ! i)) = Inr (JObj kvs) \<and> (k, v) \<in> set kvs \<and>
            py_getitem v ''options'' = Inr (options q) \<and>
            py_getitem v ''correct'' = Inr (correct q))
       \<and> ((\<forall>i kvs. length hist0 \<le> i \<and> i < length hist \<and>
                   decode_outcome json_loads (snd (hist ! i)) = Inr (JObj kvs) \<longrightarrow>
                   list_all entry_ok (map snd kvs)) \<longrightarrow>
            list_all question_ok (questions r))"
proof -
  have src: "\<exists>i kvs k v.
            length hist0 \<le> i \<and> i < length hist \<and>
            decode_outcome json_loads (snd (hist ! i)) = Inr (JObj kvs) \<and> (k, v) \<in> set kvs \<and>
            py_getitem v ''options'' = Inr (options q) \<and>
            py_getitem v ''correct'' = Inr (correct q)"
    if q: "q \<in> set (questions r)" for q
    using run
  proof (cases rule: generate_quiz_run)
    case (counted x1 x2 x3 t1 t2 t3 a1 a2 a3)
    with ok have r: "questions r = a3"
      by (auto simp: failure_def split: if_splits)
    let ?P = "\<lambda>kvs. \<exists>k v. (k, v) \<in> set kvs \<and> py_getitem v ''options'' = Inr (options q)
                \<and> py_getitem v ''correct'' = Inr (correct q)"
    from append_tier_Inr [OF counted(4)] counted(2) obtain kvs1 n1 where
      t1: "decode_outcome json_loads (snd x1) = Inr (JObj kvs1)" "a1 = n1"
        "q \<in> set n1 \<longrightarrow> ?P kvs1"
      by auto
    from append_tier_Inr [OF counted(7)] counted(5) obtain kvs2 n2 where
      t2: "decode_outcome json_loads (snd x2) = Inr (JObj kvs2)" "a2 = a1 @ n2"
        "q \<in> set n2 \<longrightarrow> ?P kvs2"
      by auto
    from append_tier_Inr [OF counted(10)] counted(8) obtain kvs3 n3 where
      t3: "decode_outcome json_loads (snd x3) = Inr (JObj kvs3)" "a3 = a2 @ n3"
        "q \<in> set n3 \<longrightarrow> ?P kvs3"
      by auto
    from q r t1(2) t2(2) t3(2) consider "q \<in> set n1" | "q \<in> set n2" | "q \<in> set n3"
      by auto
    then show ?thesis
    proof cases
      case 1
      with t1 obtain k v where "(k, v) \<in> set kvs1" "py_getitem v ''options'' = Inr (options q)"
        "py_getitem v ''correct'' = Inr (correct q)"
        by auto
      with t1(1) counted(1) show ?thesis
        by (intro exI [of _ "length hist0"] exI [of _ kvs1] exI [of _ k] exI [of _ v]) simp
    next
      case 2
      with t2 obtain k v where "(k, v) \<in> set kvs2" "py_getitem v ''options'' = Inr (options q)"
        "py_getitem v ''correct'' = Inr (correct q)"
        by auto
      with t2(1) counted(1) show ?thesis
        by (intro exI [of _ "Suc (length hist0)"] exI [of _ kvs2] exI [of _ k] exI [of _ v])
          (simp add: nth_append)
    next
      case 3
      with t3 obtain k v where "(k, v) \<in> set kvs3" "py_getitem v ''options'' = Inr (options q)"
        "py_getitem v ''correct'' = Inr (correct q)"
        by auto
      with t3(1) counted(1) show ?thesis
        by (intro exI [of _ "Suc (Suc (length hist0))"] exI [of _ kvs3] exI [of _ k] exI [of _ v])
          (simp add: nth_append)
    qed
  qed (use ok in \<open>auto simp: failure_def\<close>)
  have "question_ok q"
    if all: "\<forall>i kvs. length hist0 \<le> i \<and> i < length hist \<and>
                   decode_outcome json_loads (snd (hist ! i)) = Inr (JObj kvs) \<longrightarrow>
                   list_all entry_ok (map snd kvs)"
      and q: "q \<in> set (questions r)" for q
  proof -
    from src [OF q] obtain i kvs k v where
      "length hist0 \<le> i" "i < length hist"
      "decode_outcome json_loads (snd (hist ! i)) = Inr (JObj kvs)" "(k, v) \<in> set kvs"
      and f: "py_getitem v ''options'' = Inr (options q)" "py_getitem v ''correct'' = Inr (correct q)"
      by blast
    with all have "entry_ok v"
      by (force simp: list_all_iff)
    with f show ?thesis
      by (simp add: entry_ok_def question_ok_def)
  qed
  with src show ?thesis
    by (auto simp: list_all_iff)
qed

text \<open>A run whose three responses hold well-formed entries only.\<close>

theorem labels_copied_from_entries_witness:
  "fst (generate_quiz
          (tiered (good [''1'', ''2'', ''3'', ''4'', ''5'']) (good [''1'', ''2'', ''3''])
             (good [''1'', ''2'']))
          sample_loads ''Oceans'' [])
   = Inr \<lparr>success = True, message = ''Quiz generated successfully'',
           questions =
             [sample_question 1 ''EASY'', sample_question 2 ''EASY'',
              sample_question 3 ''EASY'', sample_question 4 ''EASY'',
              sample_question 5 ''EASY'',
              sample_question 6 ''MEDIUM'', sample_question 7 ''MEDIUM'',
              sample_question 8 ''MEDIUM'',
              sample_question 9 ''HARD'', sample_question 10 ''HARD''],
           topic = Some ''Oceans''\<rparr>
   \<and> entry_ok entry_json
   \<and> list_all question_ok
        [sample_question 1 ''EASY'', sample_question 2 ''EASY'',
         sample_question 3 ''EASY'', sample_question 4 ''EASY'',
         sample_question 5 ''EASY'',
         sample_question 6 ''MEDIUM'', sample_question 7 ''MEDIUM'',
         sample_question 8 ''MEDIUM'',
         sample_question 9 ''HARD'', sample_question 10 ''HARD'']"
proof -
  have e: "entry_ok entry_json"
    by (auto simp: entry_ok_def entry_json_def labels_ok_def)
  let ?hist = "[(\<lparr>arg_topic = ''Oceans'', arg_number = 5, arg_difficulty = ''EASY''\<rparr>,
        good [''1'', ''2'', ''3'', ''4'', ''5'']),
       (\<lparr>arg_topic = ''Oceans'', arg_number = 3, arg_difficulty = ''MEDIUM''\<rparr>,
        good [''1'', ''2'', ''3'']),
       (\<lparr>arg_topic = ''Oceans'', arg_number = 2, arg_difficulty = ''HARD''\<rparr>,
        good [''1'', ''2''])]"
  have "list_all entry_ok (map snd kvs)"
    if "i < length ?hist" "decode_outcome sample_loads (snd (?hist ! i)) = Inr (JObj kvs)" for i kvs
  proof -
    from that(1) consider "i = 0" | "i = 1" | "i = 2"
      by (auto simp: less_Suc_eq)
    then show ?thesis
      using that(2) e by cases (auto simp: decode_good sample_tier_def)
  qed
  then have "\<forall>i kvs. length ([] :: exchange list) \<le> i \<and> i < length ?hist \<and>
                   decode_outcome sample_loads (snd (?hist ! i)) = Inr (JObj kvs) \<longrightarrow>
                   list_all entry_ok (map snd kvs)"
    by blast
  with labels_copied_from_entries [OF run_good] e run_good show ?thesis
    by simp
qed

section \<open>Submitting answers\<close>

lemma held_questions_Some [simp]: "current_questions s = Some qs \<Longrightarrow> held_questions s = qs"
  by (simp add: held_questions_def)

lemma count_upt_Suc:
  "length (filter P [0..<Suc n]) = (if P 0 then 1 else 0) + length (filter (\<lambda>j. P (Suc j)) [0..<n])"
proof -
  have "[0..<Suc n] = 0 # map Suc [0..<n]"
    by (simp only: map_Suc_upt upt_conv_Cons [OF zero_less_Suc])
  then show ?thesis
    by (simp add: filter_map comp_def del: upt_Suc)
qed

lemma score_loop_strings:
  assumes "i + length qs = length answers" and "map correct qs = map JStr labels"
  shows "\<exists>det'. score_loop (JArr (map JStr answers)) (length answers) qs i sc det
           = Inr (sc + length (filter (\<lambda>j. lower (answers ! (i + j)) = lower (labels ! j))
                                [0..<length qs]), det')"
  using assms
proof (induction qs arbitrary: i sc det labels)
  case Nil
  then show ?case by simp
next
  case (Cons q qs)
  from Cons.prems(2) obtain l ls where labels: "labels = l # ls" "correct q = JStr l"
    "map correct qs = map JStr ls"
    by (cases labels) auto
  from Cons.prems(1) have i: "i < length answers" "Suc i + length qs = length answers"
    by simp_all
  let ?ok = "lower (answers ! i) = lower l"
  let ?d = "det @ [\<lparr>d_question_number = i + 1, user_answer = lower (answers ! i),
                    correct_answer = lower l, is_correct = ?ok, d_question = question q,
                    d_difficulty = difficulty q\<rparr>]"
  from Cons.IH [OF i(2) labels(3), of "if ?ok then sc + 1 else sc" ?d]
  obtain det' where
    "score_loop (JArr (map JStr answers)) (length answers) qs (Suc i)
        (if ?ok then sc + 1 else sc) ?d
      = Inr ((if ?ok then sc + 1 else sc)
              + length (filter (\<lambda>j. lower (answers ! (Suc i + j)) = lower (ls ! j)) [0..<length qs]),
             det')"
    by blast
  with i(1) labels show ?case
    by (simp add: count_upt_Suc Let_def del: upt_Suc)
qed

text \<open>
  The handler on a request that passes its first two checks (a logged-in session and
  a body that is a JSON object), with string answers and string labels: the response
  is the scored dict, the same for every state of the history store except for the
  \<open>saved\<close> flag, and the quiz is removed from the session.
\<close>

lemma api_submit_game_scored:
  assumes "is_logged_in s"
    and "map_of kvs ''answers'' = Some (JArr (map JStr answers))"
    and "current_questions s = Some qs" and "qs \<noteq> []"
    and "length answers = length qs"
    and "map correct qs = map JStr labels"
  shows "\<exists>tp det. \<forall>d. api_submit_game d s (JObj kvs) =
           (Inr (Scored
              \<lparr>score = length (filter (\<lambda>j. lower (answers ! j) = lower (labels ! j))
                                  [0..<length qs]),
               total = 10,
               result = (if 7 \<le> length (filter (\<lambda>j. lower (answers ! j) = lower (labels ! j))
                                            [0..<length qs])
                         then ''WON'' else ''LOST''),
               s_topic = tp, detailed_results = det, saved = (d = Available)\<rparr>, 200),
            s\<lparr>current_questions := None, current_topic := None\<rparr>)"
proof -
  from score_loop_strings [of 0 qs answers labels 0 "[]"] assms(5,6)
  obtain det where
    loop: "score_loop (JArr (map JStr answers)) (length answers) qs 0 0 []
             = Inr (length (filter (\<lambda>j. lower (answers ! j) = lower (labels ! j))
                              [0..<length qs]), det)"
    by auto
  let ?t = "case map_of kvs ''topic'' of None \<Rightarrow> JStr [] | Some v \<Rightarrow> v"
  let ?tp = "if \<not> truthy ?t
             then (case current_topic s of None \<Rightarrow> JStr ''Unknown Topic'' | Some t \<Rightarrow> JStr t)
             else ?t"
  have "api_submit_game d s (JObj kvs) =
           (Inr (Scored
              \<lparr>score = length (filter (\<lambda>j. lower (answers ! j) = lower (labels ! j))
                                  [0..<length qs]),
               total = 10,
               result = (if 7 \<le> length (filter (\<lambda>j. lower (answers ! j) = lower (labels ! j))
                                            [0..<length qs])
                         then ''WON'' else ''LOST''),
               s_topic = ?tp, detailed_results = det, saved = (d = Available)\<rparr>, 200),
            s\<lparr>current_questions := None, current_topic := None\<rparr>)" for d
    using assms loop
    by (cases d) (simp_all add: api_submit_game_def create_game_history_def Let_def)
  then show ?thesis
    by blast
qed

section \<open>The checks before scoring\<close>

text \<open>
  Claim C5. For a submit request that reaches the scoring part of the handler (the user
  is logged in and the body is a JSON object, whose \<^verbatim>\<open>answers\<close> are \<open>user_answers\<close>):
  when the session holds no questions, absent or empty, the response is the failure
  \<^verbatim>\<open>No active quiz found\<close> and nothing is scored; when it holds questions and the
  number of answers differs, the response is the failure that names the expected and
  the received count; and a scored response is returned only when the two lengths are
  equal. In the two failures the session is left as it was.
\<close>

theorem submit_preconditions:
  assumes "is_logged_in s"
    and "py_get (JObj kvs) ''answers'' (JArr []) = Inr user_answers"
  shows "(held_questions s = [] \<longrightarrow>
            api_submit_game d s (JObj kvs) = (Inr (Failure ''No active quiz found'', 400), s))
       \<and> (\<forall>n. held_questions s \<noteq> [] \<and> py_len user_answers = Inr n
                \<and> n \<noteq> length (held_questions s) \<longrightarrow>
            api_submit_game d s (JObj kvs)
              = (Inr (Failure (''Expected '' @ str_nat (length (held_questions s))
                                 @ '' answers but received '' @ str_nat n), 400), s))
       \<and> (\<forall>b st s'. api_submit_game d s (JObj kvs) = (Inr (Scored b, st), s') \<longrightarrow>
            held_questions s \<noteq> [] \<and> py_len user_answers = Inr (length (held_questions s)))"
  using assms
  by (auto simp: api_submit_game_def held_questions_def Let_def
           split: option.splits sum.splits if_splits prod.splits)

lemma str_nat_samples: "str_nat (Suc 0) = ''1''" "str_nat (Suc (Suc 0)) = ''2''"
proof -
  have "str_nat 1 = ''1''" "str_nat 2 = ''2''"
    by code_simp+
  then show "str_nat (Suc 0) = ''1''" "str_nat (Suc (Suc 0)) = ''2''"
    by (simp_all add: numeral_2_eq_2)
qed

theorem submit_preconditions_witness:
  "is_logged_in short_session
   \<and> api_submit_game Available empty_session (answers_body [''a'', ''b''])
       = (Inr (Failure ''No active quiz found'', 400), empty_session)
   \<and> api_submit_game Available short_session (answers_body [''a''])
       = (Inr (Failure ''Expected 2 answers but received 1'', 400), short_session)"
proof -
  have l: "is_logged_in short_session" "is_logged_in empty_session"
    by (simp_all add: is_logged_in_def short_session_def empty_session_def)
  have a: "py_get (JObj [(''answers'', JArr (map JStr answers))]) ''answers'' (JArr [])
             = Inr (JArr (map JStr answers))" for answers
    by simp
  from submit_preconditions [OF l(2) a [of "[''a'', ''b'']"], of Available]
    submit_preconditions [OF l(1) a [of "[''a'']"], of Available] l
  show ?thesis
    by (simp add: answers_body_def held_questions_def short_session_def empty_session_def
          str_nat_samples)
qed

section \<open>The score and the outcome\<close>

text \<open>
  Claim C6. For a non-empty list of held questions and as many submitted answers, the
  score is the number of positions at which the lowercased answer equals the lowercased
  correct label, and the result is WON exactly when the score is at least 7. (The
  answers and the labels are strings, as in the data model; the request has passed the
  login check and its body is a JSON object.)
\<close>

theorem score_counts_matching_answers:
  assumes "is_logged_in s"
    and "map_of kvs ''answers'' = Some (JArr (map JStr answers))"
    and "current_questions s = Some qs" and "qs \<noteq> []"
    and "length answers = length qs"
    and "map correct qs = map JStr labels"
  shows "\<exists>b s'. api_submit_game d s (JObj kvs) = (Inr (Scored b, 200), s')
           \<and> score b = length (filter (\<lambda>j. lower (answers ! j) = lower (labels ! j))
                                  [0..<length qs])
           \<and> (result b = ''WON'' \<longleftrightarrow> 7 \<le> score b)
           \<and> (result b = ''LOST'' \<longleftrightarrow> score b < 7)"
proof -
  from api_submit_game_scored [OF assms] obtain tp det where
    "api_submit_game d s (JObj kvs) =
           (Inr (Scored
              \<lparr>score = length (filter (\<lambda>j. lower (answers ! j) = lower (labels ! j))
                                  [0..<length qs]),
               total = 10,
               result = (if 7 \<le> length (filter (\<lambda>j. lower (answers ! j) = lower (labels ! j))
                                            [0..<length qs])
                         then ''WON'' else ''LOST''),
               s_topic = tp, detailed_results = det, saved = (d = Available)\<rparr>, 200),
            s\<lparr>current_questions := None, current_topic := None\<rparr>)"
    by blast
  then show ?thesis
    by auto
qed

lemma lower_samples: "lower ''A'' = ''a''" "lower ''a'' = ''a''" "lower ''b'' = ''b''"
  by code_simp+

lemma quiz_session_facts:
  "is_logged_in quiz_session"
  "current_questions quiz_session = Some quiz_questions"
  "quiz_questions \<noteq> []"
  "length quiz_questions = 10"
  "map correct quiz_questions = map JStr (replicate 10 ''a'')"
  by (simp_all add: quiz_session_def is_logged_in_def quiz_questions_def sample_question_def
        eval_nat_numeral)

lemma count_right:
  "length (filter (\<lambda>j. lower (seven_right ! j) = lower (replicate 10 ''a'' ! j)) [0..<10]) = 7"
  "length (filter (\<lambda>j. lower (six_right ! j) = lower (replicate 10 ''a'' ! j)) [0..<10]) = 6"
  by (simp_all add: seven_right_def six_right_def upt_conv_Cons lower_samples eval_nat_numeral
        del: upt_Suc)

text \<open>
  Ten held questions with the correct label a: seven answers A and three answers b
  score 7 and win; six answers A and four answers b score 6 and lose.
\<close>

theorem score_counts_matching_answers_witness:
  "(\<exists>b s'. api_submit_game Available quiz_session (answers_body seven_right)
            = (Inr (Scored b, 200), s') \<and> score b = 7 \<and> result b = ''WON'')
   \<and> (\<exists>b s'. api_submit_game Available quiz_session (answers_body six_right)
            = (Inr (Scored b, 200), s') \<and> score b = 6 \<and> result b = ''LOST'')"
proof -
  have a: "map_of [(''answers'', JArr (map JStr answers))] ''answers''
             = Some (JArr (map JStr answers))" for answers
    by simp
  have l7: "length seven_right = length quiz_questions"
    by (simp add: seven_right_def quiz_session_facts)
  have l6: "length six_right = length quiz_questions"
    by (simp add: six_right_def quiz_session_facts)
  from score_counts_matching_answers
         [OF quiz_session_facts(1) a quiz_session_facts(2,3) l7 quiz_session_facts(5),
          of Available]
  obtain b s' where "api_submit_game Available quiz_session (answers_body seven_right)
            = (Inr (Scored b, 200), s')" "score b = 7" "result b = ''WON'' \<longleftrightarrow> 7 \<le> score b"
    unfolding answers_body_def quiz_session_facts(4) count_right by blast
  then have seven: "\<exists>b s'. api_submit_game Available quiz_session (answers_body seven_right)
            = (Inr (Scored b, 200), s') \<and> score b = 7 \<and> result b = ''WON''"
    by auto
  from score_counts_matching_answers
         [OF quiz_session_facts(1) a quiz_session_facts(2,3) l6 quiz_session_facts(5),
          of Available]
  obtain c t' where "api_submit_game Available quiz_session (answers_body six_right)
            = (Inr (Scored c, 200), t')" "score c = 6" "result c = ''LOST'' \<longleftrightarrow> score c < 7"
    unfolding answers_body_def quiz_session_facts(4) count_right by blast
  then have "\<exists>b s'. api_submit_game Available quiz_session (answers_body six_right)
            = (Inr (Scored b, 200), s') \<and> score b = 6 \<and> result b = ''LOST''"
    by auto
  with seven show ?thesis
    by blast
qed

section \<open>The history store and the session\<close>



section \<open>The quiz in the session\<close>

text \<open>
  Claim C9. Whatever a call of the submit handler returns that is not the scored
  response (the failures for no active quiz and for an answer-count mismatch among
  them), the session is left as it was. With the scored response, the questions and
  the topic are both removed from the session and the user stays logged in; so a second
  submit, whatever its body, is never scored, and with a JSON object as body it is
  answered with the failure for no active quiz.
\<close>

lemma api_submit_game_session:
  assumes "api_submit_game d s data = (r, s')"
  shows "(\<exists>b. r = Inr (Scored b, 200) \<and> is_logged_in s
              \<and> s' = s\<lparr>current_questions := None, current_topic := None\<rparr>)
       \<or> ((\<forall>b st. r \<noteq> Inr (Scored b, st)) \<and> s' = s)"
  using assms
  by (auto simp: api_submit_game_def Let_def split: if_splits sum.splits prod.splits)

lemma api_submit_game_no_quiz:
  assumes "current_questions t = None"
  shows "fst (api_submit_game d2 t data2) \<noteq> Inr (Scored b2, st2)"
    and "is_logged_in t \<Longrightarrow>
         api_submit_game d2 t (JObj kvs2) = (Inr (Failure ''No active quiz found'', 400), t)"
  using assms
  by (auto simp: api_submit_game_def Let_def split: if_splits sum.splits prod.splits)

theorem submit_clears_quiz_only_on_success:
  assumes "api_submit_game d s data = (r, s')"
  shows "((\<forall>b st. r \<noteq> Inr (Scored b, st)) \<longrightarrow> s' = s)
       \<and> (\<forall>b st. r = Inr (Scored b, st) \<longrightarrow>
            st = 200 \<and> current_questions s' = None \<and> current_topic s' = None
            \<and> user_id s' = user_id s
            \<and> (\<forall>d2 data2 b2 st2. fst (api_submit_game d2 s' data2) \<noteq> Inr (Scored b2, st2))
            \<and> (\<forall>d2 kvs2. api_submit_game d2 s' (JObj kvs2)
                  = (Inr (Failure ''No active quiz found'', 400), s')))"
proof -
  from api_submit_game_session [OF assms] show ?thesis
  proof
    assume "\<exists>b. r = Inr (Scored b, 200) \<and> is_logged_in s
              \<and> s' = s\<lparr>current_questions := None, current_topic := None\<rparr>"
    then obtain b where b: "r = Inr (Scored b, 200)" "is_logged_in s"
      "s' = s\<lparr>current_questions := None, current_topic := None\<rparr>"
      by blast
    then have s': "current_questions s' = None" "is_logged_in s'"
      by (simp_all add: is_logged_in_def)
    from b s' api_submit_game_no_quiz [OF s'(1)] show ?thesis
      by simp
  next
    assume "(\<forall>b st. r \<noteq> Inr (Scored b, st)) \<and> s' = s"
    then show ?thesis
      by simp
  qed
qed

text \<open>
  A scored submit on the ten-question session empties it, and the same request sent
  again finds no active quiz; a request with too few answers leaves the session alone.
\<close>

theorem submit_clears_quiz_only_on_success_witness:
  "(\<exists>b s'. api_submit_game Available quiz_session (answers_body seven_right)
              = (Inr (Scored b, 200), s')
       \<and> current_questions s' = None \<and> current_topic s' = None
       \<and> api_submit_game Available s' (answers_body seven_right)
           = (Inr (Failure ''No active quiz found'', 400), s'))
   \<and> snd (api_submit_game Available short_session (answers_body [''a''])) = short_session"
proof -
  have a: "map_of [(''answers'', JArr (map JStr answers))] ''answers''
             = Some (JArr (map JStr answers))" for answers
    by simp
  have l7: "length seven_right = length quiz_questions"
    by (simp add: seven_right_def quiz_session_facts)
  from api_submit_game_scored
         [OF quiz_session_facts(1) a quiz_session_facts(2,3) l7 quiz_session_facts(5)]
  obtain b s' where run: "api_submit_game Available quiz_session (answers_body seven_right)
            = (Inr (Scored b, 200), s')"
    unfolding answers_body_def by blast
  from submit_clears_quiz_only_on_success [OF run]
  have "current_questions s' = None \<and> current_topic s' = None
       \<and> api_submit_game Available s' (answers_body seven_right)
           = (Inr (Failure ''No active quiz found'', 400), s')"
    unfolding answers_body_def by simp
  with run have first: "\<exists>b s'. api_submit_game Available quiz_session (answers_body seven_right)
              = (Inr (Scored b, 200), s')
       \<and> current_questions s' = None \<and> current_topic s' = None
       \<and> api_submit_game Available s' (answers_body seven_right)
           = (Inr (Failure ''No active quiz found'', 400), s')"
    by blast
  have short: "api_submit_game Available short_session (answers_body [''a''])
          = (Inr (Failure ''Expected 2 answers but received 1'', 400), short_session)"
    by (simp add: api_submit_game_def answers_body_def short_session_def is_logged_in_def
          str_nat_samples)
  from submit_clears_quiz_only_on_success [OF short] short first show ?thesis
    by simp
qed

end
